theory Spec2Isabelle
  imports Main "HOL-Library.Word" "HOL-Library.AList"
begin

section \<open>Go library functions the SDK calls\<close>

text \<open>
  Go strings are byte sequences, modelled as \<^typ>\<open>string\<close>. The functions of this section are
  the ones of Go's standard library that the SDK's code calls on strings and paths
  (\<^verbatim>\<open>strings\<close>, \<^verbatim>\<open>path\<close>, \<^verbatim>\<open>path/filepath\<close>, \<^verbatim>\<open>net/textproto\<close>, \<^verbatim>\<open>net/url\<close>, \<^verbatim>\<open>encoding/base64\<close>),
  written after their documented behaviour. Case mapping is the ASCII one: bytes above 127 are
  left as they are.
\<close>

type_synonym bytes = string

text \<open>\<^verbatim>\<open>time.Duration\<close> is an \<^verbatim>\<open>int64\<close> count of nanoseconds.\<close>

type_synonym Duration = "64 word"

definition Second :: Duration where
  "Second = 1000000000"

fun strings_HasPrefix :: "string \<Rightarrow> string \<Rightarrow> bool" where
  "strings_HasPrefix s [] = True"
| "strings_HasPrefix [] (p # ps) = False"
| "strings_HasPrefix (x # xs) (p # ps) = (x = p \<and> strings_HasPrefix xs ps)"

definition strings_HasSuffix :: "string \<Rightarrow> string \<Rightarrow> bool" where
  "strings_HasSuffix s suffix = strings_HasPrefix (rev s) (rev suffix)"

fun strings_Contains :: "string \<Rightarrow> string \<Rightarrow> bool" where
  "strings_Contains [] substr = (substr = [])"
| "strings_Contains (x # xs) substr =
     (strings_HasPrefix (x # xs) substr \<or> strings_Contains xs substr)"

definition upperLetters :: string where
  "upperLetters = ''ABCDEFGHIJKLMNOPQRSTUVWXYZ''"

definition lowerLetters :: string where
  "lowerLetters = ''abcdefghijklmnopqrstuvwxyz''"

definition toLowerByte :: "char \<Rightarrow> char" where
  "toLowerByte ch =
     (case map_of (zip upperLetters lowerLetters) ch of Some l \<Rightarrow> l | None \<Rightarrow> ch)"

definition toUpperByte :: "char \<Rightarrow> char" where
  "toUpperByte ch =
     (case map_of (zip lowerLetters upperLetters) ch of Some u \<Rightarrow> u | None \<Rightarrow> ch)"

definition strings_ToLower :: "string \<Rightarrow> string" where
  "strings_ToLower s = map toLowerByte s"

text \<open>\<^verbatim>\<open>strings.Join(elems, sep)\<close>.\<close>

fun strings_Join :: "string list \<Rightarrow> string \<Rightarrow> string" where
  "strings_Join [] sep = []"
| "strings_Join [e] sep = e"
| "strings_Join (e # e' # es) sep = e @ sep @ strings_Join (e' # es) sep"

text \<open>\<^verbatim>\<open>strings.Split(s, sep)\<close> for a separator of one byte.\<close>

fun splitByte :: "char \<Rightarrow> string \<Rightarrow> string list" where
  "splitByte sep [] = [[]]"
| "splitByte sep (x # xs) =
     (if x = sep then [] # splitByte sep xs
      else (case splitByte sep xs of
              [] \<Rightarrow> [[x]]
            | y # ys \<Rightarrow> (x # y) # ys))"

text \<open>
  \<^verbatim>\<open>strings.SplitN(s, sep, 2)\<close> for a separator of one byte: the part before the first
  separator and, when there is a separator, the rest after it.
\<close>

fun splitN2 :: "char \<Rightarrow> string \<Rightarrow> string list" where
  "splitN2 sep [] = [[]]"
| "splitN2 sep (x # xs) =
     (if x = sep then [[], xs]
      else (case splitN2 sep xs of
              [] \<Rightarrow> [[x]]
            | y # ys \<Rightarrow> (x # y) # ys))"

subsection \<open>\<^verbatim>\<open>path.Clean\<close>, \<^verbatim>\<open>path.Join\<close> and \<^verbatim>\<open>filepath.Base\<close>\<close>

text \<open>
  \<^verbatim>\<open>path.Clean\<close> walks the elements of the path from left to right: an empty element and
  \<^verbatim>\<open>.\<close> are dropped; \<^verbatim>\<open>..\<close> removes the element before it when that is not itself
  \<^verbatim>\<open>..\<close>, is dropped at the root of a rooted path, and is kept otherwise. The empty result is
  \<^verbatim>\<open>.\<close> (or \<^verbatim>\<open>/\<close> when rooted).
\<close>

definition cleanStep :: "bool \<Rightarrow> string list \<Rightarrow> string \<Rightarrow> string list" where
  "cleanStep rooted out seg =
     (if seg = [] \<or> seg = ''.'' then out
      else if seg = ''..'' then
        (if out \<noteq> [] \<and> last out \<noteq> ''..'' then butlast out
         else if rooted then out
         else out @ [''..''])
      else out @ [seg])"

definition path_Clean :: "string \<Rightarrow> string" where
  "path_Clean p =
     (if p = [] then ''.''
      else
        (let rooted = (hd p = CHR ''/'');
             out = foldl (cleanStep rooted) [] (splitByte CHR ''/'' p);
             s = strings_Join out ''/''
         in if rooted then CHR ''/'' # s
            else if s = [] then ''.''
            else s))"

text \<open>
  \<^verbatim>\<open>path.Join(elem...)\<close>: empty elements at the front are ignored, the rest is joined with
  slashes and cleaned; when every element is empty the result is the empty string.
\<close>

definition path_Join :: "string list \<Rightarrow> string" where
  "path_Join elem =
     (if list_all (\<lambda>e. e = []) elem then []
      else path_Clean (strings_Join (dropWhile (\<lambda>e. e = []) elem) ''/''))"

text \<open>
  \<^verbatim>\<open>filepath.Base\<close> on a system whose separator is the slash: trailing slashes are
  stripped, the last element is returned; the empty path gives \<^verbatim>\<open>.\<close> and a path of slashes
  only gives \<^verbatim>\<open>/\<close>.
\<close>

definition filepath_Base :: "string \<Rightarrow> string" where
  "filepath_Base p =
     (if p = [] then ''.''
      else
        (let stripped = rev (dropWhile (\<lambda>ch. ch = CHR ''/'') (rev p));
             lastElem = rev (takeWhile (\<lambda>ch. ch \<noteq> CHR ''/'') (rev stripped))
         in if lastElem = [] then ''/'' else lastElem))"

subsection \<open>\<^verbatim>\<open>textproto.CanonicalMIMEHeaderKey\<close>\<close>

definition validHeaderFieldByte :: "char \<Rightarrow> bool" where
  "validHeaderFieldByte ch =
     (ch \<in> set upperLetters \<or> ch \<in> set lowerLetters \<or> ch \<in> set ''0123456789''
      \<or> ch \<in> set ''!#$%&'*+-.^_`|~'')"

fun canonicalBytes :: "bool \<Rightarrow> string \<Rightarrow> string" where
  "canonicalBytes upper [] = []"
| "canonicalBytes upper (x # xs) =
     (let y = (if upper then toUpperByte x else toLowerByte x)
      in y # canonicalBytes (y = CHR ''-'') xs)"

definition CanonicalMIMEHeaderKey :: "string \<Rightarrow> string" where
  "CanonicalMIMEHeaderKey s =
     (if list_all validHeaderFieldByte s then canonicalBytes True s else s)"

subsection \<open>\<^verbatim>\<open>base64.StdEncoding.EncodeToString\<close>\<close>

definition encodeStd :: string where
  "encodeStd = ''ABCDEFGHIJKLMNOPQRSTUVWXYZabcdefghijklmnopqrstuvwxyz0123456789+/''"

definition b64 :: "nat \<Rightarrow> char" where
  "b64 n = encodeStd ! (n mod 64)"

fun base64_EncodeToString :: "bytes \<Rightarrow> string" where
  "base64_EncodeToString [] = []"
| "base64_EncodeToString [a] =
     (let v = of_char a * 65536 in
        [b64 (v div 262144), b64 (v div 4096), CHR ''='', CHR ''=''])"
| "base64_EncodeToString [a, b] =
     (let v = of_char a * 65536 + of_char b * 256 in
        [b64 (v div 262144), b64 (v div 4096), b64 (v div 64), CHR ''=''])"
| "base64_EncodeToString (a # b # c # rest) =
     (let v = of_char a * 65536 + of_char b * 256 + of_char c in
        [b64 (v div 262144), b64 (v div 4096), b64 (v div 64), b64 v]
        @ base64_EncodeToString rest)"

section \<open>Errors\<close>

text \<open>
  A Go \<^verbatim>\<open>error\<close> is a value; \<^verbatim>\<open>nil\<close> is \<^term>\<open>None\<close> of \<open>error option\<close>. Each error the SDK
  creates with \<^verbatim>\<open>fmt.Errorf\<close> is a constructor holding the arguments of its format string;
  \<open>ExternalError\<close> is an error value received from a library call (file system, URL and YAML
  parsing, certificate parsing, HTTP exchange).
\<close>

datatype error =
    ErrAuthMethods
  | ErrResourceAlreadySet string string
  | ErrInvalidResource string "string list"
  | ErrSubresourceAlreadySet string string
  | ErrInvalidSubresource string "string list"
  | ErrResourceNameEmpty
  | ErrResourceNameAlreadySet string string
  | ErrInvalidResourceName string "string list"
  | ErrSerializerMissing
  | ErrGroupVersionRequired
  | ErrNegotiatorRequired
  | ErrHostNotURL string
  | ErrRootCAWithInsecure
  | ErrMoreThanOneAuthMethod "string list"
  | ErrClientCertBoth
  | ErrClientKeyBoth
  | ErrClientKeyMissing
  | ErrUnableToReadClientCert string error
  | ErrUnableToReadClientKey string error
  | ErrorsNew string
  | ExternalError string

section \<open>Path segment names\<close>

definition NameMayNotBe :: "string list" where
  "NameMayNotBe = [''.'', ''..'']"

definition NameMayNotContain :: "string list" where
  "NameMayNotContain = [''/'', ''%'']"

text \<open>
  \<^verbatim>\<open>IsValidPathSegmentName\<close>: the first loop returns at the first forbidden name that
  is equal to the given one; the second loop collects one message for each forbidden substring.
\<close>

definition IsValidPathSegmentName :: "string \<Rightarrow> string list" where
  "IsValidPathSegmentName name =
     (case filter (\<lambda>illegalName. name = illegalName) NameMayNotBe of
        illegalName # _ \<Rightarrow> [''may not be '' @ [CHR 0x27] @ illegalName @ [CHR 0x27]]
      | [] \<Rightarrow>
          map (\<lambda>illegalContent. ''may not contain '' @ [CHR 0x27] @ illegalContent @ [CHR 0x27])
            (filter (\<lambda>illegalContent. strings_Contains name illegalContent) NameMayNotContain))"

definition IsValidPathSegmentPrefix :: "string \<Rightarrow> string list" where
  "IsValidPathSegmentPrefix name =
     map (\<lambda>illegalContent. ''may not contain '' @ [CHR 0x27] @ illegalContent @ [CHR 0x27])
       (filter (\<lambda>illegalContent. strings_Contains name illegalContent) NameMayNotContain)"

definition ValidatePathSegmentName :: "string \<Rightarrow> bool \<Rightarrow> string list" where
  "ValidatePathSegmentName name isPrefix =
     (if isPrefix then IsValidPathSegmentPrefix name else IsValidPathSegmentName name)"

section \<open>Data of the \<^verbatim>\<open>rest\<close> package\<close>

text \<open>
  Several structs of the SDK have fields of the same name; a field is then written with the
  name of its record in front (\<open>ClientContentConfig.Username\<close>). An embedded struct is a field
  that carries the name of its type. A byte slice is a \<^typ>\<open>bytes\<close>: the code only asks for its
  length, so \<^verbatim>\<open>nil\<close> and the empty slice are the same value.
\<close>

record GroupVersion =
  Group :: string
  Version :: string

text \<open>
  \<^verbatim>\<open>runtime.ClientNegotiator\<close> is an interface of the component-base module; the SDK calls its
  \<^verbatim>\<open>Decoder()\<close> only, so a negotiator is the answer that call gives.
\<close>

datatype Decoder = Decoder string

datatype Negotiator = ClientNegotiator "error + Decoder"

record TLSClientConfig =
  Insecure :: bool
  ServerName :: string
  CertFile :: string
  KeyFile :: string
  CAFile :: string
  CertData :: bytes
  KeyData :: bytes
  CAData :: bytes
  NextProtos :: "string list"

record ContentConfig =
  ServiceName :: string
  AcceptContentTypes :: string
  ContentType :: string
  GroupVersion :: "GroupVersion option"
  Negotiator :: "Negotiator option"

record Config =
  Host :: string
  APIPath :: string
  ContentConfig :: ContentConfig
  Username :: string
  Password :: string
  SecretID :: string
  SecretKey :: string
  BearerToken :: string
  BearerTokenFile :: string
  TLSClientConfig :: TLSClientConfig
  UserAgent :: string
  Timeout :: Duration
  MaxRetries :: int
  RetryInterval :: Duration

record ClientContentConfig =
  Username :: string
  Password :: string
  SecretID :: string
  SecretKey :: string
  BearerToken :: string
  BearerTokenFile :: string
  TLSClientConfig :: TLSClientConfig
  AcceptContentTypes :: string
  ContentType :: string
  GroupVersion :: GroupVersion
  Negotiator :: "Negotiator option"

text \<open>The fields of \<^verbatim>\<open>url.URL\<close> that the SDK reads or writes.\<close>

record URL =
  Scheme :: string
  Host :: string
  Path :: string
  RawQuery :: string
  Fragment :: string

text \<open>\<^verbatim>\<open>url.Values\<close> and \<^verbatim>\<open>http.Header\<close> are maps from a key to a list of values.\<close>

type_synonym Values = "(string \<times> string list) list"

definition Values_Get :: "Values \<Rightarrow> string \<Rightarrow> string list" where
  "Values_Get v key = (case map_of v key of None \<Rightarrow> [] | Some vs \<Rightarrow> vs)"

definition Values_Add :: "Values \<Rightarrow> string \<Rightarrow> string \<Rightarrow> Values" where
  "Values_Add v key val = AList.update key (Values_Get v key @ [val]) v"

definition Values_Set :: "Values \<Rightarrow> string \<Rightarrow> string \<Rightarrow> Values" where
  "Values_Set v key val = AList.update key [val] v"

definition Header_Del :: "Values \<Rightarrow> string \<Rightarrow> Values" where
  "Header_Del h key = AList.delete (CanonicalMIMEHeaderKey key) h"

definition Header_Add :: "Values \<Rightarrow> string \<Rightarrow> string \<Rightarrow> Values" where
  "Header_Add h key val = Values_Add h (CanonicalMIMEHeaderKey key) val"

text \<open>
  The fields of \<^verbatim>\<open>tls.Config\<close> that \<^verbatim>\<open>TLSConfigFor\<close> sets. A certificate pool is the PEM data
  it was filled from; the callback \<^verbatim>\<open>GetClientCertificate\<close> is the certificate it returns.
\<close>

datatype Certificate = Certificate bytes bytes | EmptyCertificate

record tls_Config =
  MinVersion :: nat
  InsecureSkipVerify :: bool
  ServerName :: string
  NextProtos :: "string list"
  RootCAs :: "bytes option"
  GetClientCertificate :: "Certificate option"

definition VersionTLS12 :: nat where
  "VersionTLS12 = 0x0303"

text \<open>
  A Go value handed over as \<^verbatim>\<open>interface{}\<close> (a request body, an options struct): what
  \<^verbatim>\<open>reflect\<close> says its kind is, and its content.
\<close>

datatype object = StructValue string | PointerTo string

text \<open>
  Modelled from the spec: the HTTP agent \<^verbatim>\<open>gorequest.SuperAgent\<close> of the package
  \<^verbatim>\<open>third_party/forked/gorequest\<close>, whose source is not part of the files at hand. The spec
  says that retries are a single configurable policy delegated to the underlying HTTP agent:
  the agent is the record of what it was configured with, and each configuration call stores
  its arguments.
\<close>

record Retryable =
  RetryableStatus :: "int list"
  RetryerTime :: Duration
  RetryerCount :: int
  Attempt :: int
  Enable :: bool

record SuperAgent =
  agentTLSClientConfig :: "tls_Config option"
  agentTimeout :: Duration
  Retryable :: Retryable
  DoNotClearSuperAgent :: bool
  QueryData :: "object list"
  Header :: Values

definition gorequest_New :: SuperAgent where
  "gorequest_New =
     \<lparr>agentTLSClientConfig = None, agentTimeout = 0,
      Retryable = \<lparr>RetryableStatus = [], RetryerTime = 0, RetryerCount = 0, Attempt = 0,
                   Enable = False\<rparr>,
      DoNotClearSuperAgent = False, QueryData = [], Header = []\<rparr>"

definition SuperAgent_TLSClientConfig :: "SuperAgent \<Rightarrow> tls_Config option \<Rightarrow> SuperAgent" where
  "SuperAgent_TLSClientConfig s config = s\<lparr>agentTLSClientConfig := config\<rparr>"

definition SuperAgent_Timeout :: "SuperAgent \<Rightarrow> Duration \<Rightarrow> SuperAgent" where
  "SuperAgent_Timeout s d = s\<lparr>agentTimeout := d\<rparr>"

definition SuperAgent_Retry :: "SuperAgent \<Rightarrow> int \<Rightarrow> Duration \<Rightarrow> int list \<Rightarrow> SuperAgent" where
  "SuperAgent_Retry s retryerCount retryerTime statusCode =
     s\<lparr>Retryable := \<lparr>RetryableStatus = statusCode, RetryerTime = retryerTime,
                      RetryerCount = retryerCount, Attempt = 0, Enable = True\<rparr>\<rparr>"

definition SuperAgent_Query :: "SuperAgent \<Rightarrow> object \<Rightarrow> SuperAgent" where
  "SuperAgent_Query s v = s\<lparr>QueryData := QueryData s @ [v]\<rparr>"

definition StatusInternalServerError :: int where
  "StatusInternalServerError = 500"

definition StatusOK :: int where
  "StatusOK = 200"

record RESTClient =
  base :: "URL option"
  group :: string
  versionedAPIPath :: string
  content :: ClientContentConfig
  Client :: SuperAgent

text \<open>
  The struct \<^verbatim>\<open>Request\<close>. Its field \<^verbatim>\<open>c\<close> is \<open>restClient\<close> here. The request holds its
  client by value: what a builder call changes in the client's agent is visible in the request
  that is returned.
\<close>

record Request =
  restClient :: RESTClient
  timeout :: Duration
  verb :: string
  pathPrefix :: string
  subpath :: string
  params :: Values
  headers :: Values
  resource :: string
  resourceName :: string
  subresource :: string
  err :: "error option"
  body :: "object option"

text \<open>\<^verbatim>\<open>gorequest.Response\<close> is \<^verbatim>\<open>*http.Response\<close>; the SDK reads its status code.\<close>

record Response =
  StatusCode :: int

record Result =
  response :: Response
  err :: "error option"
  body :: bytes
  decoder :: "Decoder option"

text \<open>A call that can end in a run-time panic.\<close>

datatype 'a outcome = Returns 'a | Panics

section \<open>Data of the \<^verbatim>\<open>clientcmd\<close> package\<close>

record Server =
  LocationOfOrigin :: string
  Timeout :: Duration
  MaxRetries :: int
  RetryInterval :: Duration
  Address :: string
  TLSServerName :: string
  InsecureSkipTLSVerify :: bool
  CertificateAuthority :: string
  CertificateAuthorityData :: string

record AuthInfo =
  LocationOfOrigin :: string
  ClientCertificate :: string
  ClientCertificateData :: string
  ClientKey :: string
  ClientKeyData :: string
  Token :: string
  Username :: string
  Password :: string
  SecretID :: string
  SecretKey :: string

text \<open>
  \<^verbatim>\<open>clientcmd.Config\<close>; its two pointer fields are \<^term>\<open>None\<close> when they are \<^verbatim>\<open>nil\<close>.
\<close>

record clientcmd_Config =
  APIVersion :: string
  AuthInfo :: "AuthInfo option"
  Server :: "Server option"

text \<open>
  A value as \<^verbatim>\<open>fmt\<close> sees it when it prints a field with the verb \<^verbatim>\<open>%#v\<close> and the field's
  type has no \<^verbatim>\<open>GoString\<close> method.
\<close>

datatype govalue =
    GoStringValue string
  | GoBytes bytes
  | GoBool bool
  | GoInt int
  | GoDuration Duration
  | GoStrings "string list"
  | GoGroupVersionPointer "GroupVersion option"
  | GoNegotiator "Negotiator option"

section \<open>What the SDK asks of its libraries and of its surroundings\<close>

text \<open>
  The calls below leave the repository: token signing (\<^verbatim>\<open>auth.Sign\<close> of component-base), URL
  parsing and query encoding (\<^verbatim>\<open>net/url\<close>), the text of a duration (\<^verbatim>\<open>time\<close>), the HTTP
  exchange itself (\<^verbatim>\<open>CustomMethod(...).Send(...).EndBytes()\<close>), the file system
  (\<^verbatim>\<open>ioutil.ReadFile\<close>, \<^verbatim>\<open>os.Open\<close>), base64 decoding, the parsing of a key pair
  (\<^verbatim>\<open>tls.X509KeyPair\<close>), YAML decoding into a \<^verbatim>\<open>Config\<close> that already has a value
  (\<^verbatim>\<open>yaml.Unmarshal\<close>), and the Go syntax of a value (\<^verbatim>\<open>fmt\<close> with \<^verbatim>\<open>%#v\<close>). The globals the
  user agent is built from (\<^verbatim>\<open>os.Args[0]\<close>, \<^verbatim>\<open>version.Get()\<close>, \<^verbatim>\<open>runtime.GOOS\<close>,
  \<^verbatim>\<open>runtime.GOARCH\<close>) are here as well. Every definition that reads one of them takes the
  record as its first argument, and every theorem holds for all such records.
\<close>

record platform =
  auth_Sign :: "string \<Rightarrow> string \<Rightarrow> string \<Rightarrow> string \<Rightarrow> string"
  url_Parse :: "string \<Rightarrow> error + URL"
  URL_Query :: "URL \<Rightarrow> Values"
  Values_Encode :: "Values \<Rightarrow> string"
  Duration_String :: "Duration \<Rightarrow> string"
  EndBytes :: "SuperAgent \<Rightarrow> string \<Rightarrow> URL \<Rightarrow> object option \<Rightarrow> Response \<times> bytes \<times> error list"
  ReadFile :: "string \<Rightarrow> error + bytes"
  os_Open :: "string \<Rightarrow> error option"
  base64_DecodeString :: "string \<Rightarrow> bytes \<times> error option"
  X509KeyPair :: "bytes \<Rightarrow> bytes \<Rightarrow> error + Certificate"
  yaml_Unmarshal :: "bytes \<Rightarrow> clientcmd_Config \<Rightarrow> error + clientcmd_Config"
  fmt_GoSyntax :: "govalue \<Rightarrow> string"
  os_Args0 :: string
  GitVersion :: string
  GitCommit :: string
  GOOS :: string
  GOARCH :: string

section \<open>The request builder\<close>

definition HasBasicAuth :: "ClientContentConfig \<Rightarrow> bool" where
  "HasBasicAuth c = (length (ClientContentConfig.Username c) \<noteq> 0)"

definition HasTokenAuth :: "ClientContentConfig \<Rightarrow> bool" where
  "HasTokenAuth c =
     (length (ClientContentConfig.BearerToken c) \<noteq> 0
      \<or> length (ClientContentConfig.BearerTokenFile c) \<noteq> 0)"

definition HasKeyAuth :: "ClientContentConfig \<Rightarrow> bool" where
  "HasKeyAuth c =
     (length (ClientContentConfig.SecretID c) \<noteq> 0
      \<and> length (ClientContentConfig.SecretKey c) \<noteq> 0)"

definition basicAuth :: "string \<Rightarrow> string \<Rightarrow> string" where
  "basicAuth username password = base64_EncodeToString (username @ '':'' @ password)"

definition SetHeader :: "Request \<Rightarrow> string \<Rightarrow> string list \<Rightarrow> Request" where
  "SetHeader r key vals =
     r\<lparr>headers := foldl (\<lambda>h val. Header_Add h key val) (Header_Del (headers r) key) vals\<rparr>"

text \<open>The number of the three functions that answer true: \<^verbatim>\<open>authMethod\<close> of \<^verbatim>\<open>NewRequest\<close>.\<close>

definition authMethod :: "ClientContentConfig \<Rightarrow> nat" where
  "authMethod c = length (filter (\<lambda>fn. fn c) [HasBasicAuth, HasTokenAuth, HasKeyAuth])"

definition NewRequest :: "platform \<Rightarrow> RESTClient \<Rightarrow> Request" where
  "NewRequest pf c =
     (let prefix = (case base c of
                      Some b \<Rightarrow> path_Join [''/'', URL.Path b, versionedAPIPath c]
                    | None \<Rightarrow> path_Join [''/'', versionedAPIPath c]);
          r = \<lparr>restClient = c, timeout = 0, verb = [], pathPrefix = prefix, subpath = [],
               params = [], headers = [], resource = [], resourceName = [], subresource = [],
               Request.err = None, Request.body = None\<rparr>
      in if authMethod (content c) > 1 then r\<lparr>Request.err := Some ErrAuthMethods\<rparr>
         else
           (let r1 =
                  (if HasTokenAuth (content c) then
                     SetHeader r ''Authorization''
                       [''Bearer '' @ ClientContentConfig.BearerToken (content c)]
                   else if HasKeyAuth (content c) then
                     SetHeader r ''Authorization''
                       [''Bearer '' @ auth_Sign pf (ClientContentConfig.SecretID (content c))
                           (ClientContentConfig.SecretKey (content c)) ''marmotedu-sdk-go''
                           (group c @ ''.marmotedu.com'')]
                   else if HasBasicAuth (content c) then
                     SetHeader r ''Authorization''
                       [''Basic '' @ basicAuth (ClientContentConfig.Username (content c))
                           (ClientContentConfig.Password (content c))]
                   else r)
            in if length (ClientContentConfig.AcceptContentTypes (content c)) > 0 then
                 SetHeader r1 ''Accept'' [ClientContentConfig.AcceptContentTypes (content c)]
               else if length (ClientContentConfig.ContentType (content c)) > 0 then
                 SetHeader r1 ''Accept'' [ClientContentConfig.ContentType (content c) @ '', */*'']
               else r1))"

definition Verb :: "Request \<Rightarrow> string \<Rightarrow> Request" where
  "Verb r v = r\<lparr>verb := v\<rparr>"

definition Prefix :: "Request \<Rightarrow> string list \<Rightarrow> Request" where
  "Prefix r segments =
     (if Request.err r \<noteq> None then r
      else r\<lparr>pathPrefix := path_Join [pathPrefix r, path_Join segments]\<rparr>)"

definition Suffix :: "Request \<Rightarrow> string list \<Rightarrow> Request" where
  "Suffix r segments =
     (if Request.err r \<noteq> None then r
      else r\<lparr>subpath := path_Join [subpath r, path_Join segments]\<rparr>)"

definition Resource :: "Request \<Rightarrow> string \<Rightarrow> Request" where
  "Resource r res =
     (if Request.err r \<noteq> None then r
      else if length (resource r) \<noteq> 0 then
        r\<lparr>Request.err := Some (ErrResourceAlreadySet (resource r) res)\<rparr>
      else if length (IsValidPathSegmentName res) \<noteq> 0 then
        r\<lparr>Request.err := Some (ErrInvalidResource res (IsValidPathSegmentName res))\<rparr>
      else r\<lparr>resource := res\<rparr>)"

text \<open>
  In \<^verbatim>\<open>SubResource\<close> the loop over the segments returns at the first segment that is not a
  valid name. The message of the first error names \<^verbatim>\<open>r.resource\<close>, as the source does.
\<close>

definition SubResource :: "Request \<Rightarrow> string list \<Rightarrow> Request" where
  "SubResource r subresources =
     (if Request.err r \<noteq> None then r
      else if length (subresource r) \<noteq> 0 then
        r\<lparr>Request.err := Some (ErrSubresourceAlreadySet (resource r) (path_Join subresources))\<rparr>
      else
        (case filter (\<lambda>s. length (IsValidPathSegmentName s) \<noteq> 0) subresources of
           s # _ \<Rightarrow> r\<lparr>Request.err := Some (ErrInvalidSubresource s (IsValidPathSegmentName s))\<rparr>
         | [] \<Rightarrow> r\<lparr>subresource := path_Join subresources\<rparr>))"

definition Name :: "Request \<Rightarrow> string \<Rightarrow> Request" where
  "Name r name =
     (if Request.err r \<noteq> None then r
      else if length name = 0 then r\<lparr>Request.err := Some ErrResourceNameEmpty\<rparr>
      else if length (resourceName r) \<noteq> 0 then
        r\<lparr>Request.err := Some (ErrResourceNameAlreadySet (resourceName r) name)\<rparr>
      else if length (IsValidPathSegmentName name) \<noteq> 0 then
        r\<lparr>Request.err := Some (ErrInvalidResourceName name (IsValidPathSegmentName name))\<rparr>
      else r\<lparr>resourceName := name\<rparr>)"

text \<open>\<^verbatim>\<open>AbsPath\<close> reads \<^verbatim>\<open>r.c.base.Path\<close>: with no base URL that is a nil dereference.\<close>

definition AbsPath :: "Request \<Rightarrow> string list \<Rightarrow> Request outcome" where
  "AbsPath r segments =
     (if Request.err r \<noteq> None then Returns r
      else
        (case base (restClient r) of
           None \<Rightarrow> Panics
         | Some b \<Rightarrow>
             (let r1 = r\<lparr>pathPrefix := path_Join [URL.Path b, path_Join segments]\<rparr>
              in if length segments = 1
                    \<and> (length (URL.Path b) > 1 \<or> length (segments ! 0) > 1)
                    \<and> strings_HasSuffix (segments ! 0) ''/''
                 then Returns (r1\<lparr>pathPrefix := pathPrefix r1 @ ''/''\<rparr>)
                 else Returns r1)))"

definition RequestURI :: "platform \<Rightarrow> Request \<Rightarrow> string \<Rightarrow> Request" where
  "RequestURI pf r uri =
     (if Request.err r \<noteq> None then r
      else
        (case url_Parse pf uri of
           Inl e \<Rightarrow> r\<lparr>Request.err := Some e\<rparr>
         | Inr locator \<Rightarrow>
             (let r1 = r\<lparr>pathPrefix := URL.Path locator\<rparr>
              in if length (URL_Query pf locator) > 0 then
                   r1\<lparr>params := foldl (\<lambda>ps (k, v). AList.update k v ps) (params r1)
                                  (URL_Query pf locator)\<rparr>
                 else r1)))"

definition setParam :: "Request \<Rightarrow> string \<Rightarrow> string \<Rightarrow> Request" where
  "setParam r paramName val = r\<lparr>params := Values_Add (params r) paramName val\<rparr>"

definition Param :: "Request \<Rightarrow> string \<Rightarrow> string \<Rightarrow> Request" where
  "Param r paramName s = (if Request.err r \<noteq> None then r else setParam r paramName s)"

definition VersionedParams :: "Request \<Rightarrow> object \<Rightarrow> Request" where
  "VersionedParams r v =
     (if Request.err r \<noteq> None then r
      else r\<lparr>restClient :=
               (restClient r)\<lparr>Client := SuperAgent_Query (Client (restClient r)) v\<rparr>\<rparr>)"

definition Request_Timeout :: "Request \<Rightarrow> Duration \<Rightarrow> Request" where
  "Request_Timeout r d = (if Request.err r \<noteq> None then r else r\<lparr>timeout := d\<rparr>)"

text \<open>
  \<^verbatim>\<open>URL\<close>: the path \<^verbatim>\<open>p\<close>, the value \<^verbatim>\<open>query\<close> that is built from the parameters and the
  timeout, and the URL that is returned.
\<close>

definition URL_p :: "Request \<Rightarrow> string" where
  "URL_p r =
     (let p = pathPrefix r;
          p1 = (if length (resource r) \<noteq> 0 then path_Join [p, strings_ToLower (resource r)]
                else p)
      in if length (resourceName r) \<noteq> 0 \<or> length (subpath r) \<noteq> 0
            \<or> length (subresource r) \<noteq> 0
         then path_Join [p1, resourceName r, subresource r, subpath r]
         else p1)"

definition URL_query :: "platform \<Rightarrow> Request \<Rightarrow> Values" where
  "URL_query pf r =
     (let query =
            foldl (\<lambda>q (key, vals). foldl (\<lambda>q' val. Values_Add q' key val) q vals) []
              (params r)
      in if timeout r \<noteq> 0 then Values_Set query ''timeout'' (Duration_String pf (timeout r))
         else query)"

definition Request_URL :: "platform \<Rightarrow> Request \<Rightarrow> URL" where
  "Request_URL pf r =
     (let finalURL = (case base (restClient r) of
                        Some b \<Rightarrow> b
                      | None \<Rightarrow> \<lparr>Scheme = [], Host = [], Path = [], RawQuery = [],
                                  Fragment = []\<rparr>)
      in finalURL\<lparr>Path := URL_p r, RawQuery := Values_Encode pf (URL_query pf r)\<rparr>)"

definition Body :: "Request \<Rightarrow> object \<Rightarrow> Request" where
  "Body r obj =
     (let r1 = (case obj of
                  StructValue _ \<Rightarrow>
                    SetHeader r ''Content-Type''
                      [ClientContentConfig.ContentType (content (restClient r))]
                | PointerTo _ \<Rightarrow> r)
      in r1\<lparr>Request.body := Some obj\<rparr>)"

text \<open>
  \<^verbatim>\<open>combineErr\<close>: the loop over \<^verbatim>\<open>errs\<close> assigns \<^verbatim>\<open>e = sep + err.Error()\<close> in every round, so
  what is left is the last message, after a newline when there was more than one.
\<close>

definition errorText :: "error \<Rightarrow> string" where
  "errorText e = (case e of ErrorsNew m \<Rightarrow> m | ExternalError m \<Rightarrow> m | _ \<Rightarrow> [])"

definition combineErr :: "Response \<Rightarrow> bytes \<Rightarrow> error list \<Rightarrow> error option" where
  "combineErr resp bdy errs =
     (if length errs > 0 then
        Some (ErrorsNew ((if length errs > 1 then [CHR 0x0A] else []) @ errorText (last errs)))
      else if StatusCode resp \<noteq> StatusOK then Some (ErrorsNew bdy)
      else None)"

text \<open>
  \<^verbatim>\<open>Do\<close> copies the headers into the agent, has the agent make one HTTP exchange and asks
  the negotiator for a decoder; calling \<^verbatim>\<open>Decoder()\<close> on a nil negotiator is a nil
  dereference. The deadline it puts on the context when the timeout is
  positive is a matter of real time and is not part of this model.
\<close>

definition Do :: "platform \<Rightarrow> Request \<Rightarrow> Result outcome" where
  "Do pf r =
     (let agent = (Client (restClient r))\<lparr>Header := headers r\<rparr>;
          (resp, bdy, errs) = EndBytes pf agent (verb r) (Request_URL pf r) (Request.body r)
      in case combineErr resp bdy errs of
           Some e \<Rightarrow>
             Returns \<lparr>response = resp, Result.err = Some e, Result.body = bdy, decoder = None\<rparr>
         | None \<Rightarrow>
             (case ClientContentConfig.Negotiator (content (restClient r)) of
                None \<Rightarrow> Panics
              | Some (ClientNegotiator (Inl e)) \<Rightarrow>
                  Returns \<lparr>response = resp, Result.err = Some e, Result.body = bdy,
                           decoder = None\<rparr>
              | Some (ClientNegotiator (Inr d)) \<Rightarrow>
                  Returns \<lparr>response = resp, Result.err = None, Result.body = bdy,
                           decoder = Some d\<rparr>))"

definition Raw :: "Result \<Rightarrow> bytes \<times> error option" where
  "Raw res = (Result.body res, Result.err res)"

definition Result_Error :: "Result \<Rightarrow> error option" where
  "Result_Error res = Result.err res"

text \<open>
  \<^verbatim>\<open>Into\<close> decodes the body with the decoder of the result; \<open>decode\<close> is the decoder's
  \<^verbatim>\<open>Decode\<close> at the type of the object the caller passes.
\<close>

definition Into :: "(Decoder \<Rightarrow> bytes \<Rightarrow> error + 'a) \<Rightarrow> Result \<Rightarrow> error + 'a" where
  "Into decode res =
     (case Result.err res of
        Some e \<Rightarrow> Inl e
      | None \<Rightarrow>
          (case decoder res of
             None \<Rightarrow> Inl ErrSerializerMissing
           | Some d \<Rightarrow> decode d (Result.body res)))"

section \<open>Client configuration: \<^verbatim>\<open>Config\<close>, TLS and the REST client\<close>

definition HasCA :: "TLSClientConfig \<Rightarrow> bool" where
  "HasCA c = (length (CAData c) > 0 \<or> length (CAFile c) > 0)"

definition HasCertAuth :: "TLSClientConfig \<Rightarrow> bool" where
  "HasCertAuth c =
     ((length (CertData c) \<noteq> 0 \<or> length (CertFile c) \<noteq> 0)
      \<and> (length (KeyData c) \<noteq> 0 \<or> length (KeyFile c) \<noteq> 0))"

definition dataFromSliceOrFile :: "platform \<Rightarrow> bytes \<Rightarrow> string \<Rightarrow> bytes \<times> error option" where
  "dataFromSliceOrFile pf dat file =
     (if length dat > 0 then base64_DecodeString pf dat
      else if length file > 0 then
        (case ReadFile pf file of
           Inl e \<Rightarrow> ([], Some e)
         | Inr fileData \<Rightarrow> (fileData, None))
      else ([], None))"

text \<open>
  \<^verbatim>\<open>LoadTLSFiles\<close> writes into the config it is given: the result is the config after the
  call and the error. Each assignment is made before its error is looked at.
\<close>

definition LoadTLSFiles :: "platform \<Rightarrow> Config \<Rightarrow> Config \<times> error option" where
  "LoadTLSFiles pf c =
     (let t = Config.TLSClientConfig c;
          (ca, err1) = dataFromSliceOrFile pf (CAData t) (CAFile t);
          t1 = t\<lparr>CAData := ca\<rparr>
      in if err1 \<noteq> None then (c\<lparr>Config.TLSClientConfig := t1\<rparr>, err1)
         else
           (let (cert, err2) = dataFromSliceOrFile pf (CertData t1) (CertFile t1);
                t2 = t1\<lparr>CertData := cert\<rparr>
            in if err2 \<noteq> None then (c\<lparr>Config.TLSClientConfig := t2\<rparr>, err2)
               else
                 (let (key, err3) = dataFromSliceOrFile pf (KeyData t2) (KeyFile t2);
                      t3 = t2\<lparr>KeyData := key\<rparr>
                  in if err3 \<noteq> None then (c\<lparr>Config.TLSClientConfig := t3\<rparr>, err3)
                     else (c\<lparr>Config.TLSClientConfig := t3\<rparr>, None))))"

definition rootCertPool :: "bytes \<Rightarrow> bytes option" where
  "rootCertPool caData = (if length caData = 0 then None else Some caData)"

text \<open>
  \<^verbatim>\<open>TLSConfigFor\<close> returns the pair of Go, \<^verbatim>\<open>(*tls.Config, error)\<close>, and leaves the config
  changed by \<^verbatim>\<open>LoadTLSFiles\<close>: the first component is the config after the call.
\<close>

definition TLSConfigFor :: "platform \<Rightarrow> Config \<Rightarrow> Config \<times> tls_Config option \<times> error option" where
  "TLSConfigFor pf c =
     (let t = Config.TLSClientConfig c in
      if \<not> (HasCA t \<or> HasCertAuth t \<or> Insecure t \<or> length (TLSClientConfig.ServerName t) > 0)
      then (c, None, None)
      else if HasCA t \<and> Insecure t then (c, None, Some ErrRootCAWithInsecure)
      else
        (case LoadTLSFiles pf c of
           (c1, Some e) \<Rightarrow> (c1, None, Some e)
         | (c1, None) \<Rightarrow>
             (let t1 = Config.TLSClientConfig c1;
                  tlsConfig = \<lparr>MinVersion = VersionTLS12, InsecureSkipVerify = Insecure t1,
                               tls_Config.ServerName = TLSClientConfig.ServerName t1,
                               tls_Config.NextProtos = TLSClientConfig.NextProtos t1,
                               RootCAs = None, GetClientCertificate = None\<rparr>;
                  tlsConfig1 = (if HasCA t1 then tlsConfig\<lparr>RootCAs := rootCertPool (CAData t1)\<rparr>
                                else tlsConfig)
              in if HasCertAuth t1 then
                   (case X509KeyPair pf (CertData t1) (KeyData t1) of
                      Inl e \<Rightarrow> (c1, None, Some e)
                    | Inr cert \<Rightarrow> (c1, Some (tlsConfig1\<lparr>GetClientCertificate := Some cert\<rparr>), None))
                 else (c1, Some tlsConfig1, None))))"

text \<open>
  \<^verbatim>\<open>DefaultServerURL\<close> and \<^verbatim>\<open>defaultServerURLFor\<close>. A result is the Go triple with the error
  on the left.
\<close>

definition DefaultServerURL ::
    "platform \<Rightarrow> string \<Rightarrow> string \<Rightarrow> GroupVersion \<Rightarrow> bool \<Rightarrow> error + URL \<times> string" where
  "DefaultServerURL pf host apiPath groupVersion defaultTLS =
     (let versioned = path_Join [''/'', apiPath, Version groupVersion];
          parsed = url_Parse pf host;
          usable = (case parsed of
                      Inl _ \<Rightarrow> False
                    | Inr u \<Rightarrow> URL.Scheme u \<noteq> [] \<and> URL.Host u \<noteq> [])
      in if usable then (case parsed of Inl e \<Rightarrow> Inl e | Inr u \<Rightarrow> Inr (u, versioned))
         else
           (let requestURL = (if defaultTLS then ''https://'' @ Group groupVersion @ ''.marmotedu.com:8443''
                              else ''http://'' @ Group groupVersion @ ''.marmotedu.com:8080'')
            in case url_Parse pf requestURL of
                 Inl e \<Rightarrow> Inl e
               | Inr u \<Rightarrow>
                   (if URL.Path u \<noteq> [] \<and> URL.Path u \<noteq> ''/'' then Inl (ErrHostNotURL host)
                    else Inr (u, versioned))))"

definition defaultServerURLFor :: "platform \<Rightarrow> Config \<Rightarrow> error + URL \<times> string" where
  "defaultServerURLFor pf config =
     (let t = Config.TLSClientConfig config;
          hasCA = (length (CAFile t) \<noteq> 0 \<or> length (CAData t) \<noteq> 0);
          hasCert = (length (CertFile t) \<noteq> 0 \<or> length (CertData t) \<noteq> 0);
          defaultTLS = (hasCA \<or> hasCert \<or> Insecure t)
      in case ContentConfig.GroupVersion (Config.ContentConfig config) of
           Some gv \<Rightarrow> DefaultServerURL pf (Config.Host config) (APIPath config) gv defaultTLS
         | None \<Rightarrow>
             DefaultServerURL pf (Config.Host config) (APIPath config)
               \<lparr>Group = [], Version = []\<rparr> defaultTLS)"

definition NewRESTClient ::
    "URL \<Rightarrow> string \<Rightarrow> ClientContentConfig \<Rightarrow> SuperAgent \<Rightarrow> error + RESTClient" where
  "NewRESTClient baseURL versioned config agent =
     (let config1 = (if length (ClientContentConfig.ContentType config) = 0
                     then config\<lparr>ClientContentConfig.ContentType := ''application/json''\<rparr>
                     else config);
          base1 = (if \<not> strings_HasSuffix (URL.Path baseURL) ''/''
                   then baseURL\<lparr>URL.Path := URL.Path baseURL @ ''/''\<rparr>
                   else baseURL);
          base2 = base1\<lparr>RawQuery := [], Fragment := []\<rparr>
      in Inr \<lparr>base = Some base2,
              group = Group (ClientContentConfig.GroupVersion config1),
              versionedAPIPath = versioned,
              content = config1,
              Client = agent\<rparr>)"

text \<open>
  \<^verbatim>\<open>RESTClientFor\<close>. The client content is built from the config as \<^verbatim>\<open>TLSConfigFor\<close> left
  it.
\<close>

definition RESTClientFor :: "platform \<Rightarrow> Config \<Rightarrow> error + RESTClient" where
  "RESTClientFor pf config =
     (case ContentConfig.GroupVersion (Config.ContentConfig config) of
        None \<Rightarrow> Inl ErrGroupVersionRequired
      | Some gv \<Rightarrow>
          (case ContentConfig.Negotiator (Config.ContentConfig config) of
             None \<Rightarrow> Inl ErrNegotiatorRequired
           | Some negotiator \<Rightarrow>
               (case defaultServerURLFor pf config of
                  Inl e \<Rightarrow> Inl e
                | Inr (baseURL, versioned) \<Rightarrow>
                    (case TLSConfigFor pf config of
                       (config1, _, Some e) \<Rightarrow> Inl e
                     | (config1, tlsConfig, None) \<Rightarrow>
                         (let agent =
                                SuperAgent_Retry
                                  (SuperAgent_Timeout
                                     (SuperAgent_TLSClientConfig gorequest_New tlsConfig)
                                     (Config.Timeout config1))
                                  (Config.MaxRetries config1) (Config.RetryInterval config1)
                                  [StatusInternalServerError];
                              agent1 = agent\<lparr>DoNotClearSuperAgent := True\<rparr>;
                              clientContent =
                                \<lparr>ClientContentConfig.Username = Config.Username config1,
                                 ClientContentConfig.Password = Config.Password config1,
                                 ClientContentConfig.SecretID = Config.SecretID config1,
                                 ClientContentConfig.SecretKey = Config.SecretKey config1,
                                 ClientContentConfig.BearerToken = Config.BearerToken config1,
                                 ClientContentConfig.BearerTokenFile = Config.BearerTokenFile config1,
                                 ClientContentConfig.TLSClientConfig = Config.TLSClientConfig config1,
                                 ClientContentConfig.AcceptContentTypes =
                                   ContentConfig.AcceptContentTypes (Config.ContentConfig config1),
                                 ClientContentConfig.ContentType =
                                   ContentConfig.ContentType (Config.ContentConfig config1),
                                 ClientContentConfig.GroupVersion = gv,
                                 ClientContentConfig.Negotiator = Some negotiator\<rparr>
                          in NewRESTClient baseURL versioned clientContent agent1)))))"

subsection \<open>The user agent\<close>

definition adjustCommit :: "string \<Rightarrow> string" where
  "adjustCommit c =
     (if length c = 0 then ''unknown''
      else if length c > 7 then take 7 c
      else c)"

definition adjustVersion :: "string \<Rightarrow> string" where
  "adjustVersion v =
     (if length v = 0 then ''unknown''
      else (case splitN2 CHR ''-'' v of seg0 # _ \<Rightarrow> seg0 | [] \<Rightarrow> []))"

definition adjustCommand :: "string \<Rightarrow> string" where
  "adjustCommand p = (if length p = 0 then ''unknown'' else filepath_Base p)"

definition buildUserAgent :: "string \<Rightarrow> string \<Rightarrow> string \<Rightarrow> string \<Rightarrow> string \<Rightarrow> string" where
  "buildUserAgent command version os arch commit =
     command @ ''/'' @ version @ '' ('' @ os @ ''/'' @ arch @ '') iam/'' @ commit"

definition DefaultUserAgent :: "platform \<Rightarrow> string" where
  "DefaultUserAgent pf =
     buildUserAgent (adjustCommand (os_Args0 pf)) (adjustVersion (GitVersion pf)) (GOOS pf)
       (GOARCH pf) (adjustCommit (GitCommit pf))"

definition SetIAMDefaults :: "platform \<Rightarrow> Config \<Rightarrow> Config" where
  "SetIAMDefaults pf config =
     (if length (UserAgent config) = 0 then config\<lparr>UserAgent := DefaultUserAgent pf\<rparr>
      else config)"

definition AddUserAgent :: "platform \<Rightarrow> Config \<Rightarrow> string \<Rightarrow> Config" where
  "AddUserAgent pf config userAgent =
     config\<lparr>UserAgent := DefaultUserAgent pf @ ''/'' @ userAgent\<rparr>"

subsection \<open>Printing a config\<close>

text \<open>
  \<^verbatim>\<open>CopyConfig\<close> names the fields it copies; \<^verbatim>\<open>MaxRetries\<close> and \<^verbatim>\<open>RetryInterval\<close> are not
  among them, so the copy has their zero values.
\<close>

definition CopyConfig :: "Config \<Rightarrow> Config" where
  "CopyConfig config =
     \<lparr>Config.Host = Config.Host config,
      APIPath = APIPath config,
      Config.ContentConfig = Config.ContentConfig config,
      Config.Username = Config.Username config,
      Config.Password = Config.Password config,
      Config.SecretID = Config.SecretID config,
      Config.SecretKey = Config.SecretKey config,
      Config.BearerToken = Config.BearerToken config,
      Config.BearerTokenFile = Config.BearerTokenFile config,
      Config.TLSClientConfig =
        \<lparr>Insecure = Insecure (Config.TLSClientConfig config),
         TLSClientConfig.ServerName = TLSClientConfig.ServerName (Config.TLSClientConfig config),
         CertFile = CertFile (Config.TLSClientConfig config),
         KeyFile = KeyFile (Config.TLSClientConfig config),
         CAFile = CAFile (Config.TLSClientConfig config),
         CertData = CertData (Config.TLSClientConfig config),
         KeyData = KeyData (Config.TLSClientConfig config),
         CAData = CAData (Config.TLSClientConfig config),
         TLSClientConfig.NextProtos = TLSClientConfig.NextProtos (Config.TLSClientConfig config)\<rparr>,
      UserAgent = UserAgent config,
      Config.Timeout = Config.Timeout config,
      Config.MaxRetries = 0,
      Config.RetryInterval = 0\<rparr>"

text \<open>
  With the verb \<^verbatim>\<open>%#v\<close>, \<^verbatim>\<open>fmt\<close> prints a struct as the name of its type and, between
  braces, each field as \<^verbatim>\<open>name:value\<close>, the fields separated by a comma and a space. A field
  whose type has a \<^verbatim>\<open>GoString\<close> method is printed by that method; any other field that is
  not a struct is printed by \<open>fmt_GoSyntax\<close>.
\<close>

definition goStruct :: "string \<Rightarrow> (string \<times> string) list \<Rightarrow> string" where
  "goStruct typeName fieldTexts =
     typeName @ ''{''
     @ strings_Join (map (\<lambda>(name, val). name @ '':'' @ val) fieldTexts) '', '' @ ''}''"

text \<open>The copy \<^verbatim>\<open>cc\<close> that \<^verbatim>\<open>TLSClientConfig.String\<close> prints.\<close>

definition sanitizedTLSClientConfig :: "TLSClientConfig \<Rightarrow> TLSClientConfig" where
  "sanitizedTLSClientConfig c =
     (let cc = \<lparr>Insecure = Insecure c,
                TLSClientConfig.ServerName = TLSClientConfig.ServerName c,
                CertFile = CertFile c,
                KeyFile = KeyFile c,
                CAFile = CAFile c,
                CertData = CertData c,
                KeyData = KeyData c,
                CAData = CAData c,
                TLSClientConfig.NextProtos = TLSClientConfig.NextProtos c\<rparr>;
          cc1 = (if length (CertData cc) \<noteq> 0 then cc\<lparr>CertData := ''--- TRUNCATED ---''\<rparr> else cc)
      in if length (KeyData cc1) \<noteq> 0 then cc1\<lparr>KeyData := ''--- REDACTED ---''\<rparr> else cc1)"

definition TLSClientConfig_String :: "platform \<Rightarrow> TLSClientConfig \<Rightarrow> string" where
  "TLSClientConfig_String pf c =
     (let cc = sanitizedTLSClientConfig c in
        goStruct ''rest.sanitizedTLSClientConfig''
          [(''Insecure'', fmt_GoSyntax pf (GoBool (Insecure cc))),
           (''ServerName'', fmt_GoSyntax pf (GoStringValue (TLSClientConfig.ServerName cc))),
           (''CertFile'', fmt_GoSyntax pf (GoStringValue (CertFile cc))),
           (''KeyFile'', fmt_GoSyntax pf (GoStringValue (KeyFile cc))),
           (''CAFile'', fmt_GoSyntax pf (GoStringValue (CAFile cc))),
           (''CertData'', fmt_GoSyntax pf (GoBytes (CertData cc))),
           (''KeyData'', fmt_GoSyntax pf (GoBytes (KeyData cc))),
           (''CAData'', fmt_GoSyntax pf (GoBytes (CAData cc))),
           (''NextProtos'', fmt_GoSyntax pf (GoStrings (TLSClientConfig.NextProtos cc)))])"

definition TLSClientConfig_GoString :: "platform \<Rightarrow> TLSClientConfig \<Rightarrow> string" where
  "TLSClientConfig_GoString pf c = TLSClientConfig_String pf c"

text \<open>The copy \<^verbatim>\<open>cc\<close> that \<^verbatim>\<open>Config.String\<close> prints.\<close>

definition sanitizedConfig :: "Config \<Rightarrow> Config" where
  "sanitizedConfig c =
     (let cc = CopyConfig c;
          cc1 = (if Config.Password cc \<noteq> [] then cc\<lparr>Config.Password := ''--- REDACTED ---''\<rparr>
                 else cc);
          cc2 = (if Config.BearerToken cc1 \<noteq> []
                 then cc1\<lparr>Config.BearerToken := ''--- REDACTED ---''\<rparr> else cc1)
      in if Config.SecretKey cc2 \<noteq> [] then cc2\<lparr>Config.SecretKey := ''--- REDACTED ---''\<rparr>
         else cc2)"

definition Config_String :: "platform \<Rightarrow> Config option \<Rightarrow> string" where
  "Config_String pf c =
     (case c of
        None \<Rightarrow> ''<nil>''
      | Some c' \<Rightarrow>
          (let cc = sanitizedConfig c'; cont = Config.ContentConfig cc in
             ''&'' @ goStruct ''rest.Config''
               [(''Host'', fmt_GoSyntax pf (GoStringValue (Config.Host cc))),
                (''APIPath'', fmt_GoSyntax pf (GoStringValue (APIPath cc))),
                (''ContentConfig'',
                   goStruct ''rest.ContentConfig''
                     [(''ServiceName'', fmt_GoSyntax pf (GoStringValue (ServiceName cont))),
                      (''AcceptContentTypes'',
                         fmt_GoSyntax pf (GoStringValue (ContentConfig.AcceptContentTypes cont))),
                      (''ContentType'',
                         fmt_GoSyntax pf (GoStringValue (ContentConfig.ContentType cont))),
                      (''GroupVersion'',
                         fmt_GoSyntax pf (GoGroupVersionPointer (ContentConfig.GroupVersion cont))),
                      (''Negotiator'',
                         fmt_GoSyntax pf (GoNegotiator (ContentConfig.Negotiator cont)))]),
                (''Username'', fmt_GoSyntax pf (GoStringValue (Config.Username cc))),
                (''Password'', fmt_GoSyntax pf (GoStringValue (Config.Password cc))),
                (''SecretID'', fmt_GoSyntax pf (GoStringValue (Config.SecretID cc))),
                (''SecretKey'', fmt_GoSyntax pf (GoStringValue (Config.SecretKey cc))),
                (''BearerToken'', fmt_GoSyntax pf (GoStringValue (Config.BearerToken cc))),
                (''BearerTokenFile'', fmt_GoSyntax pf (GoStringValue (Config.BearerTokenFile cc))),
                (''TLSClientConfig'', TLSClientConfig_GoString pf (Config.TLSClientConfig cc)),
                (''UserAgent'', fmt_GoSyntax pf (GoStringValue (UserAgent cc))),
                (''Timeout'', fmt_GoSyntax pf (GoDuration (Config.Timeout cc))),
                (''MaxRetries'', fmt_GoSyntax pf (GoInt (Config.MaxRetries cc))),
                (''RetryInterval'', fmt_GoSyntax pf (GoDuration (Config.RetryInterval cc)))]))"

definition Config_GoString :: "platform \<Rightarrow> Config option \<Rightarrow> string" where
  "Config_GoString pf c = Config_String pf c"

section \<open>The \<^verbatim>\<open>clientcmd\<close> package: validation and loading\<close>

text \<open>
  \<^verbatim>\<open>validateAuthInfo\<close>. The variable \<^verbatim>\<open>usingAuthPath\<close> is set to false and never changed.
  The errors are appended in the order of the source.
\<close>

definition authInfoMethods :: "AuthInfo \<Rightarrow> string list" where
  "authInfoMethods authInfo =
     (if length (Token authInfo) \<noteq> 0 then [''token''] else [])
     @ (if length (AuthInfo.Username authInfo) \<noteq> 0 \<or> length (AuthInfo.Password authInfo) \<noteq> 0
        then [''basicAuth''] else [])
     @ (if length (AuthInfo.SecretID authInfo) \<noteq> 0 \<or> length (AuthInfo.SecretKey authInfo) \<noteq> 0
        then [''secretAuth''] else [])"

definition validateAuthInfo :: "platform \<Rightarrow> AuthInfo \<Rightarrow> error list" where
  "validateAuthInfo pf authInfo =
     (let usingAuthPath = False;
          methods = authInfoMethods authInfo;
          validationErrors =
            (if length methods > 1 \<and> \<not> usingAuthPath then [ErrMoreThanOneAuthMethod methods]
             else [])
      in if length (ClientCertificate authInfo) = 0 \<or> length (ClientCertificateData authInfo) = 0
         then validationErrors
         else
           validationErrors
           @ (if length (ClientCertificate authInfo) \<noteq> 0
                 \<and> length (ClientCertificateData authInfo) \<noteq> 0
              then [ErrClientCertBoth] else [])
           @ (if length (ClientKey authInfo) \<noteq> 0 \<and> length (ClientKeyData authInfo) \<noteq> 0
              then [ErrClientKeyBoth] else [])
           @ (if length (ClientKey authInfo) = 0 \<and> length (ClientKeyData authInfo) = 0
              then [ErrClientKeyMissing] else [])
           @ (if length (ClientCertificate authInfo) \<noteq> 0 then
                (case os_Open pf (ClientCertificate authInfo) of
                   Some e \<Rightarrow> [ErrUnableToReadClientCert (ClientCertificate authInfo) e]
                 | None \<Rightarrow> [])
              else [])
           @ (if length (ClientKey authInfo) \<noteq> 0 then
                (case os_Open pf (ClientKey authInfo) of
                   Some e \<Rightarrow> [ErrUnableToReadClientKey (ClientKey authInfo) e]
                 | None \<Rightarrow> [])
              else []))"

definition emptyServer :: Server where
  "emptyServer =
     \<lparr>Server.LocationOfOrigin = [], Server.Timeout = 0, Server.MaxRetries = 0,
      Server.RetryInterval = 0, Address = [], TLSServerName = [],
      InsecureSkipTLSVerify = False, CertificateAuthority = [],
      CertificateAuthorityData = []\<rparr>"

definition emptyAuthInfo :: AuthInfo where
  "emptyAuthInfo =
     \<lparr>AuthInfo.LocationOfOrigin = [], ClientCertificate = [], ClientCertificateData = [],
      ClientKey = [], ClientKeyData = [], Token = [], AuthInfo.Username = [],
      AuthInfo.Password = [], AuthInfo.SecretID = [], AuthInfo.SecretKey = []\<rparr>"

definition NewConfig :: clientcmd_Config where
  "NewConfig = \<lparr>APIVersion = [], AuthInfo = Some emptyAuthInfo, Server = Some emptyServer\<rparr>"

text \<open>
  \<^verbatim>\<open>Load\<close> returns \<^verbatim>\<open>(*Config, error)\<close>: the error on the left stands for \<^verbatim>\<open>(nil, err)\<close>, the
  config on the right for \<^verbatim>\<open>(config, nil)\<close>.
\<close>

definition Load :: "platform \<Rightarrow> bytes \<Rightarrow> error + clientcmd_Config" where
  "Load pf dat =
     (let config = NewConfig in
      if length dat = 0 then Inr config
      else (case yaml_Unmarshal pf dat config of
              Inl e \<Rightarrow> Inl e
            | Inr config1 \<Rightarrow> Inr config1))"

text \<open>
  \<^verbatim>\<open>LoadFromFile\<close> writes \<^verbatim>\<open>LocationOfOrigin\<close> through the two pointers of the loaded config
  and only then compares them with \<^verbatim>\<open>nil\<close>: a write through a nil pointer is a panic.
\<close>

definition LoadFromFile :: "platform \<Rightarrow> string \<Rightarrow> (error + clientcmd_Config) outcome" where
  "LoadFromFile pf filename =
     (case ReadFile pf filename of
        Inl e \<Rightarrow> Returns (Inl e)
      | Inr iamconfigBytes \<Rightarrow>
          (case Load pf iamconfigBytes of
             Inl e \<Rightarrow> Returns (Inl e)
           | Inr config \<Rightarrow>
               (case AuthInfo config of
                  None \<Rightarrow> Panics
                | Some a \<Rightarrow>
                    (let config1 =
                           config\<lparr>AuthInfo := Some (a\<lparr>AuthInfo.LocationOfOrigin := filename\<rparr>)\<rparr>
                     in case Server config1 of
                          None \<Rightarrow> Panics
                        | Some sv \<Rightarrow>
                            (let config2 =
                                   config1\<lparr>Server :=
                                             Some (sv\<lparr>Server.LocationOfOrigin := filename\<rparr>)\<rparr>;
                                 config3 = (if AuthInfo config2 = None
                                            then config2\<lparr>AuthInfo := Some emptyAuthInfo\<rparr>
                                            else config2);
                                 config4 = (if Server config3 = None
                                            then config3\<lparr>Server := Some emptyServer\<rparr>
                                            else config3)
                             in Returns (Inr config4))))))"

section \<open>The typed clients\<close>

definition RESTClient_Verb :: "platform \<Rightarrow> RESTClient \<Rightarrow> string \<Rightarrow> Request" where
  "RESTClient_Verb pf c v = Verb (NewRequest pf c) v"

definition RESTClient_Post :: "platform \<Rightarrow> RESTClient \<Rightarrow> Request" where
  "RESTClient_Post pf c = RESTClient_Verb pf c ''POST''"

definition RESTClient_Put :: "platform \<Rightarrow> RESTClient \<Rightarrow> Request" where
  "RESTClient_Put pf c = RESTClient_Verb pf c ''PUT''"

definition RESTClient_Get :: "platform \<Rightarrow> RESTClient \<Rightarrow> Request" where
  "RESTClient_Get pf c = RESTClient_Verb pf c ''GET''"

definition RESTClient_Delete :: "platform \<Rightarrow> RESTClient \<Rightarrow> Request" where
  "RESTClient_Delete pf c = RESTClient_Verb pf c ''DELETE''"

text \<open>
  The resource types (\<^verbatim>\<open>v1.User\<close>, \<^verbatim>\<open>v1.Secret\<close>, \<^verbatim>\<open>v1.Policy\<close>) and the option structs
  belong to other modules. The clients read the name of an object and the field
  \<^verbatim>\<open>TimeoutSeconds\<close> of the list options; everything else of a value is its content, which is
  passed on. An object is passed as a pointer, options for the query as a struct, delete
  options for the body as a pointer.
\<close>

record APIObject =
  ObjectMeta_Name :: string
  objectContent :: string

record ListOptions =
  TimeoutSeconds :: "64 word option"
  listContent :: string

text \<open>\<^verbatim>\<open>time.Duration(*opts.TimeoutSeconds) * time.Second\<close>, zero when the pointer is nil.\<close>

definition listTimeout :: "ListOptions \<Rightarrow> Duration" where
  "listTimeout opts = (case TimeoutSeconds opts of None \<Rightarrow> 0 | Some secs \<Rightarrow> secs * Second)"

text \<open>
  Each method of a typed client builds a request and ends with \<^verbatim>\<open>Do(ctx).Into(result)\<close> or
  \<^verbatim>\<open>Do(ctx).Error()\<close>. The request it builds is a definition of its own (\<open>_request\<close>), so
  that it can be looked at before it is sent.
\<close>

definition DoInto ::
    "platform \<Rightarrow> (Decoder \<Rightarrow> bytes \<Rightarrow> error + 'a) \<Rightarrow> Request \<Rightarrow> (error + 'a) outcome" where
  "DoInto pf decode r =
     (case Do pf r of Panics \<Rightarrow> Panics | Returns res \<Rightarrow> Returns (Into decode res))"

definition DoError :: "platform \<Rightarrow> Request \<Rightarrow> error option outcome" where
  "DoError pf r =
     (case Do pf r of Panics \<Rightarrow> Panics | Returns res \<Rightarrow> Returns (Result_Error res))"

text \<open>
  The next three functions are not functions of the SDK. They name the two ends of \<^verbatim>\<open>Do\<close>, so
  that a theorem can speak of the HTTP exchange between them: \<open>sentAgent\<close> is the agent as
  \<^verbatim>\<open>Do\<close> prepares it (\<^verbatim>\<open>client.Header = r.headers\<close>); \<open>answerInto\<close> and \<open>answerError\<close> are
  what \<^verbatim>\<open>Do(ctx).Into(result)\<close> and \<^verbatim>\<open>Do(ctx).Error()\<close> return once the exchange has given its
  answer, written after the code of \<^verbatim>\<open>Do\<close>, \<^verbatim>\<open>Into\<close> and \<^verbatim>\<open>Error\<close>. That \<open>DoInto\<close> and
  \<open>DoError\<close> are these functions of the answer is proved below (\<open>DoInto_exchange\<close>,
  \<open>DoError_exchange\<close>).
\<close>

definition sentAgent :: "Request \<Rightarrow> SuperAgent" where
  "sentAgent r = (Client (restClient r))\<lparr>Header := headers r\<rparr>"

definition answerInto ::
    "(Decoder \<Rightarrow> bytes \<Rightarrow> error + 'a) \<Rightarrow> Negotiator option \<Rightarrow> Response \<times> bytes \<times> error list
     \<Rightarrow> (error + 'a) outcome" where
  "answerInto decode negotiator answer =
     (case answer of
        (resp, bdy, errs) \<Rightarrow>
          (case combineErr resp bdy errs of
             Some e \<Rightarrow> Returns (Inl e)
           | None \<Rightarrow>
               (case negotiator of
                  None \<Rightarrow> Panics
                | Some (ClientNegotiator (Inl e)) \<Rightarrow> Returns (Inl e)
                | Some (ClientNegotiator (Inr d)) \<Rightarrow> Returns (decode d bdy))))"

definition answerError ::
    "Negotiator option \<Rightarrow> Response \<times> bytes \<times> error list \<Rightarrow> error option outcome" where
  "answerError negotiator answer =
     (case answer of
        (resp, bdy, errs) \<Rightarrow>
          (case combineErr resp bdy errs of
             Some e \<Rightarrow> Returns (Some e)
           | None \<Rightarrow>
               (case negotiator of
                  None \<Rightarrow> Panics
                | Some (ClientNegotiator (Inl e)) \<Rightarrow> Returns (Some e)
                | Some (ClientNegotiator (Inr d)) \<Rightarrow> Returns None)))"

subsection \<open>\<^verbatim>\<open>users\<close>\<close>

definition users_Get_request :: "platform \<Rightarrow> RESTClient \<Rightarrow> string \<Rightarrow> string \<Rightarrow> Request" where
  "users_Get_request pf c name options =
     VersionedParams (Name (Resource (RESTClient_Get pf c) ''users'') name) (StructValue options)"

definition users_Get ::
    "platform \<Rightarrow> (Decoder \<Rightarrow> bytes \<Rightarrow> error + 'a) \<Rightarrow> RESTClient \<Rightarrow> string \<Rightarrow> string
     \<Rightarrow> (error + 'a) outcome" where
  "users_Get pf decode c name options = DoInto pf decode (users_Get_request pf c name options)"

definition users_List_request :: "platform \<Rightarrow> RESTClient \<Rightarrow> ListOptions \<Rightarrow> Request" where
  "users_List_request pf c opts =
     Request_Timeout
       (VersionedParams (Resource (RESTClient_Get pf c) ''users'') (StructValue (listContent opts)))
       (listTimeout opts)"

definition users_List ::
    "platform \<Rightarrow> (Decoder \<Rightarrow> bytes \<Rightarrow> error + 'a) \<Rightarrow> RESTClient \<Rightarrow> ListOptions
     \<Rightarrow> (error + 'a) outcome" where
  "users_List pf decode c opts = DoInto pf decode (users_List_request pf c opts)"

definition users_Create_request :: "platform \<Rightarrow> RESTClient \<Rightarrow> APIObject \<Rightarrow> string \<Rightarrow> Request" where
  "users_Create_request pf c obj opts =
     Body (VersionedParams (Resource (RESTClient_Post pf c) ''users'') (StructValue opts))
       (PointerTo (objectContent obj))"

definition users_Create ::
    "platform \<Rightarrow> (Decoder \<Rightarrow> bytes \<Rightarrow> error + 'a) \<Rightarrow> RESTClient \<Rightarrow> APIObject \<Rightarrow> string
     \<Rightarrow> (error + 'a) outcome" where
  "users_Create pf decode c obj opts = DoInto pf decode (users_Create_request pf c obj opts)"

definition users_Update_request :: "platform \<Rightarrow> RESTClient \<Rightarrow> APIObject \<Rightarrow> string \<Rightarrow> Request" where
  "users_Update_request pf c obj opts =
     Body
       (VersionedParams (Name (Resource (RESTClient_Put pf c) ''users'') (ObjectMeta_Name obj))
          (StructValue opts))
       (PointerTo (objectContent obj))"

definition users_Update ::
    "platform \<Rightarrow> (Decoder \<Rightarrow> bytes \<Rightarrow> error + 'a) \<Rightarrow> RESTClient \<Rightarrow> APIObject \<Rightarrow> string
     \<Rightarrow> (error + 'a) outcome" where
  "users_Update pf decode c obj opts = DoInto pf decode (users_Update_request pf c obj opts)"

definition users_Delete_request :: "platform \<Rightarrow> RESTClient \<Rightarrow> string \<Rightarrow> string \<Rightarrow> Request" where
  "users_Delete_request pf c name opts =
     Body (Name (Resource (RESTClient_Delete pf c) ''users'') name) (PointerTo opts)"

definition users_Delete :: "platform \<Rightarrow> RESTClient \<Rightarrow> string \<Rightarrow> string \<Rightarrow> error option outcome" where
  "users_Delete pf c name opts = DoError pf (users_Delete_request pf c name opts)"

definition users_DeleteCollection_request ::
    "platform \<Rightarrow> RESTClient \<Rightarrow> string \<Rightarrow> ListOptions \<Rightarrow> Request" where
  "users_DeleteCollection_request pf c opts listOpts =
     Body
       (Request_Timeout
          (VersionedParams (Resource (RESTClient_Delete pf c) ''users'')
             (StructValue (listContent listOpts)))
          (listTimeout listOpts))
       (PointerTo opts)"

definition users_DeleteCollection ::
    "platform \<Rightarrow> RESTClient \<Rightarrow> string \<Rightarrow> ListOptions \<Rightarrow> error option outcome" where
  "users_DeleteCollection pf c opts listOpts =
     DoError pf (users_DeleteCollection_request pf c opts listOpts)"

subsection \<open>\<^verbatim>\<open>secrets\<close>\<close>

definition secrets_Get_request :: "platform \<Rightarrow> RESTClient \<Rightarrow> string \<Rightarrow> string \<Rightarrow> Request" where
  "secrets_Get_request pf c name options =
     VersionedParams (Name (Resource (RESTClient_Get pf c) ''secrets'') name) (StructValue options)"

definition secrets_Get ::
    "platform \<Rightarrow> (Decoder \<Rightarrow> bytes \<Rightarrow> error + 'a) \<Rightarrow> RESTClient \<Rightarrow> string \<Rightarrow> string
     \<Rightarrow> (error + 'a) outcome" where
  "secrets_Get pf decode c name options = DoInto pf decode (secrets_Get_request pf c name options)"

definition secrets_List_request :: "platform \<Rightarrow> RESTClient \<Rightarrow> ListOptions \<Rightarrow> Request" where
  "secrets_List_request pf c opts =
     Request_Timeout
       (VersionedParams (Resource (RESTClient_Get pf c) ''secrets'') (StructValue (listContent opts)))
       (listTimeout opts)"

definition secrets_List ::
    "platform \<Rightarrow> (Decoder \<Rightarrow> bytes \<Rightarrow> error + 'a) \<Rightarrow> RESTClient \<Rightarrow> ListOptions
     \<Rightarrow> (error + 'a) outcome" where
  "secrets_List pf decode c opts = DoInto pf decode (secrets_List_request pf c opts)"

definition secrets_Create_request :: "platform \<Rightarrow> RESTClient \<Rightarrow> APIObject \<Rightarrow> string \<Rightarrow> Request" where
  "secrets_Create_request pf c obj opts =
     Body (VersionedParams (Resource (RESTClient_Post pf c) ''secrets'') (StructValue opts))
       (PointerTo (objectContent obj))"

definition secrets_Create ::
    "platform \<Rightarrow> (Decoder \<Rightarrow> bytes \<Rightarrow> error + 'a) \<Rightarrow> RESTClient \<Rightarrow> APIObject \<Rightarrow> string
     \<Rightarrow> (error + 'a) outcome" where
  "secrets_Create pf decode c obj opts = DoInto pf decode (secrets_Create_request pf c obj opts)"

definition secrets_Update_request :: "platform \<Rightarrow> RESTClient \<Rightarrow> APIObject \<Rightarrow> string \<Rightarrow> Request" where
  "secrets_Update_request pf c obj opts =
     Body
       (VersionedParams (Name (Resource (RESTClient_Put pf c) ''secrets'') (ObjectMeta_Name obj))
          (StructValue opts))
       (PointerTo (objectContent obj))"

definition secrets_Update ::
    "platform \<Rightarrow> (Decoder \<Rightarrow> bytes \<Rightarrow> error + 'a) \<Rightarrow> RESTClient \<Rightarrow> APIObject \<Rightarrow> string
     \<Rightarrow> (error + 'a) outcome" where
  "secrets_Update pf decode c obj opts = DoInto pf decode (secrets_Update_request pf c obj opts)"

definition secrets_Delete_request :: "platform \<Rightarrow> RESTClient \<Rightarrow> string \<Rightarrow> string \<Rightarrow> Request" where
  "secrets_Delete_request pf c name opts =
     Body (Name (Resource (RESTClient_Delete pf c) ''secrets'') name) (PointerTo opts)"

definition secrets_Delete :: "platform \<Rightarrow> RESTClient \<Rightarrow> string \<Rightarrow> string \<Rightarrow> error option outcome" where
  "secrets_Delete pf c name opts = DoError pf (secrets_Delete_request pf c name opts)"

definition secrets_DeleteCollection_request ::
    "platform \<Rightarrow> RESTClient \<Rightarrow> string \<Rightarrow> ListOptions \<Rightarrow> Request" where
  "secrets_DeleteCollection_request pf c opts listOpts =
     Body
       (Request_Timeout
          (VersionedParams (Resource (RESTClient_Delete pf c) ''secrets'')
             (StructValue (listContent listOpts)))
          (listTimeout listOpts))
       (PointerTo opts)"

definition secrets_DeleteCollection ::
    "platform \<Rightarrow> RESTClient \<Rightarrow> string \<Rightarrow> ListOptions \<Rightarrow> error option outcome" where
  "secrets_DeleteCollection pf c opts listOpts =
     DoError pf (secrets_DeleteCollection_request pf c opts listOpts)"

subsection \<open>\<^verbatim>\<open>policies\<close>\<close>

definition policies_Get_request :: "platform \<Rightarrow> RESTClient \<Rightarrow> string \<Rightarrow> string \<Rightarrow> Request" where
  "policies_Get_request pf c name options =
     VersionedParams (Name (Resource (RESTClient_Get pf c) ''policies'') name) (StructValue options)"

definition policies_Get ::
    "platform \<Rightarrow> (Decoder \<Rightarrow> bytes \<Rightarrow> error + 'a) \<Rightarrow> RESTClient \<Rightarrow> string \<Rightarrow> string
     \<Rightarrow> (error + 'a) outcome" where
  "policies_Get pf decode c name options = DoInto pf decode (policies_Get_request pf c name options)"

definition policies_List_request :: "platform \<Rightarrow> RESTClient \<Rightarrow> ListOptions \<Rightarrow> Request" where
  "policies_List_request pf c opts =
     Request_Timeout
       (VersionedParams (Resource (RESTClient_Get pf c) ''policies'') (StructValue (listContent opts)))
       (listTimeout opts)"

definition policies_List ::
    "platform \<Rightarrow> (Decoder \<Rightarrow> bytes \<Rightarrow> error + 'a) \<Rightarrow> RESTClient \<Rightarrow> ListOptions
     \<Rightarrow> (error + 'a) outcome" where
  "policies_List pf decode c opts = DoInto pf decode (policies_List_request pf c opts)"

definition policies_Create_request :: "platform \<Rightarrow> RESTClient \<Rightarrow> APIObject \<Rightarrow> string \<Rightarrow> Request" where
  "policies_Create_request pf c obj opts =
     Body (VersionedParams (Resource (RESTClient_Post pf c) ''policies'') (StructValue opts))
       (PointerTo (objectContent obj))"

definition policies_Create ::
    "platform \<Rightarrow> (Decoder \<Rightarrow> bytes \<Rightarrow> error + 'a) \<Rightarrow> RESTClient \<Rightarrow> APIObject \<Rightarrow> string
     \<Rightarrow> (error + 'a) outcome" where
  "policies_Create pf decode c obj opts = DoInto pf decode (policies_Create_request pf c obj opts)"

definition policies_Update_request :: "platform \<Rightarrow> RESTClient \<Rightarrow> APIObject \<Rightarrow> string \<Rightarrow> Request" where
  "policies_Update_request pf c obj opts =
     Body
       (VersionedParams (Name (Resource (RESTClient_Put pf c) ''policies'') (ObjectMeta_Name obj))
          (StructValue opts))
       (PointerTo (objectContent obj))"

definition policies_Update ::
    "platform \<Rightarrow> (Decoder \<Rightarrow> bytes \<Rightarrow> error + 'a) \<Rightarrow> RESTClient \<Rightarrow> APIObject \<Rightarrow> string
     \<Rightarrow> (error + 'a) outcome" where
  "policies_Update pf decode c obj opts = DoInto pf decode (policies_Update_request pf c obj opts)"

definition policies_Delete_request :: "platform \<Rightarrow> RESTClient \<Rightarrow> string \<Rightarrow> string \<Rightarrow> Request" where
  "policies_Delete_request pf c name opts =
     Body (Name (Resource (RESTClient_Delete pf c) ''policies'') name) (PointerTo opts)"

definition policies_Delete :: "platform \<Rightarrow> RESTClient \<Rightarrow> string \<Rightarrow> string \<Rightarrow> error option outcome" where
  "policies_Delete pf c name opts = DoError pf (policies_Delete_request pf c name opts)"

definition policies_DeleteCollection_request ::
    "platform \<Rightarrow> RESTClient \<Rightarrow> string \<Rightarrow> ListOptions \<Rightarrow> Request" where
  "policies_DeleteCollection_request pf c opts listOpts =
     Body
       (Request_Timeout
          (VersionedParams (Resource (RESTClient_Delete pf c) ''policies'')
             (StructValue (listContent listOpts)))
          (listTimeout listOpts))
       (PointerTo opts)"

definition policies_DeleteCollection ::
    "platform \<Rightarrow> RESTClient \<Rightarrow> string \<Rightarrow> ListOptions \<Rightarrow> error option outcome" where
  "policies_DeleteCollection pf c opts listOpts =
     DoError pf (policies_DeleteCollection_request pf c opts listOpts)"

subsection \<open>\<^verbatim>\<open>authz\<close>\<close>

text \<open>
  \<^verbatim>\<open>authzv1.Response\<close> is a type of the API module; \<open>authz_Response\<close> holds its two fields.
  \<^verbatim>\<open>Authorize\<close> passes a pointer to a fresh \<^verbatim>\<open>Response\<close> to \<^verbatim>\<open>Into\<close>, so the decoder it is
  given decodes at that type.
\<close>

record authz_Response =
  Allowed :: bool
  Denied :: bool

definition authz_Authorize_request :: "platform \<Rightarrow> RESTClient \<Rightarrow> string \<Rightarrow> string \<Rightarrow> Request" where
  "authz_Authorize_request pf c request opts =
     Body (VersionedParams (Resource (RESTClient_Post pf c) ''authz'') (StructValue opts))
       (PointerTo request)"

definition authz_Authorize ::
    "platform \<Rightarrow> (Decoder \<Rightarrow> bytes \<Rightarrow> error + authz_Response) \<Rightarrow> RESTClient \<Rightarrow> string \<Rightarrow> string
     \<Rightarrow> (error + authz_Response) outcome" where
  "authz_Authorize pf decode c request opts =
     DoInto pf decode (authz_Authorize_request pf c request opts)"

section \<open>Values for the examples\<close>

text \<open>
  A platform on which the functions can be run: the URL of the examples parses, every other
  URL is refused; no file can be read; every HTTP exchange is answered with status 200 and
  the body \<^verbatim>\<open>{}\<close>; a duration of one second is printed as \<^verbatim>\<open>1s\<close>.
\<close>

definition exampleURL :: URL where
  "exampleURL =
     \<lparr>Scheme = ''http'', Host = ''iam.example.com:8080'', Path = [], RawQuery = [],
      Fragment = []\<rparr>"

definition examplePlatform :: platform where
  "examplePlatform =
     \<lparr>auth_Sign = (\<lambda>secretID secretKey iss aud. secretID @ ''.'' @ iss @ ''.'' @ aud),
      url_Parse = (\<lambda>s. if s = ''http://iam.example.com:8080'' then Inr exampleURL
                         else Inl (ExternalError ''parse'')),
      URL_Query = (\<lambda>u. []),
      Values_Encode =
        (\<lambda>v. strings_Join (map (\<lambda>(k, vs). k @ ''='' @ strings_Join vs '','') v) ''&''),
      Duration_String = (\<lambda>d. if d = Second then ''1s'' else ''0s''),
      EndBytes = (\<lambda>agent method url bdy. (\<lparr>StatusCode = 200\<rparr>, ''{}'', [])),
      ReadFile = (\<lambda>file. Inl (ExternalError ''no such file or directory'')),
      os_Open = (\<lambda>file. Some (ExternalError ''no such file or directory'')),
      base64_DecodeString = (\<lambda>s. ([], Some (ExternalError ''illegal base64 data''))),
      X509KeyPair = (\<lambda>cert key. Inl (ExternalError ''failed to find any PEM data'')),
      yaml_Unmarshal = (\<lambda>dat config. Inl (ExternalError ''cannot unmarshal'')),
      fmt_GoSyntax = (\<lambda>v. ''_''),
      os_Args0 = ''/usr/local/bin/iamctl'',
      GitVersion = ''v1.6.2-3-g7f3c2a9'',
      GitCommit = ''7f3c2a9d1e5b4c6a'',
      GOOS = ''linux'',
      GOARCH = ''amd64''\<rparr>"

definition exampleTLS :: TLSClientConfig where
  "exampleTLS =
     \<lparr>Insecure = False, TLSClientConfig.ServerName = [], CertFile = [], KeyFile = [],
      CAFile = [], CertData = [], KeyData = [], CAData = [], TLSClientConfig.NextProtos = []\<rparr>"

text \<open>A client content with no credentials, and a client that uses it.\<close>

definition exampleContent :: ClientContentConfig where
  "exampleContent =
     \<lparr>ClientContentConfig.Username = [], ClientContentConfig.Password = [],
      ClientContentConfig.SecretID = [], ClientContentConfig.SecretKey = [],
      ClientContentConfig.BearerToken = [], ClientContentConfig.BearerTokenFile = [],
      ClientContentConfig.TLSClientConfig = exampleTLS,
      ClientContentConfig.AcceptContentTypes = [],
      ClientContentConfig.ContentType = ''application/json'',
      ClientContentConfig.GroupVersion = \<lparr>Group = ''iam.api'', Version = ''v1''\<rparr>,
      ClientContentConfig.Negotiator = Some (ClientNegotiator (Inr (Decoder ''json'')))\<rparr>"

definition clientWith :: "ClientContentConfig \<Rightarrow> RESTClient" where
  "clientWith cont =
     \<lparr>base = Some (exampleURL\<lparr>URL.Path := ''/''\<rparr>), group = ''iam.api'',
      versionedAPIPath = ''/v1'', content = cont, Client = gorequest_New\<rparr>"

definition basicClient :: RESTClient where
  "basicClient =
     clientWith (exampleContent\<lparr>ClientContentConfig.Username := ''admin'',
                                ClientContentConfig.Password := ''Admin@2021''\<rparr>)"

definition tokenClient :: RESTClient where
  "tokenClient = clientWith (exampleContent\<lparr>ClientContentConfig.BearerToken := ''tok''\<rparr>)"

definition keyClient :: RESTClient where
  "keyClient =
     clientWith (exampleContent\<lparr>ClientContentConfig.SecretID := ''id'',
                                ClientContentConfig.SecretKey := ''key''\<rparr>)"

text \<open>A client whose content has a user name and a bearer token at once.\<close>

definition conflictClient :: RESTClient where
  "conflictClient =
     clientWith (exampleContent\<lparr>ClientContentConfig.Username := ''admin'',
                                ClientContentConfig.BearerToken := ''tok''\<rparr>)"

text \<open>
  Identity information with a client certificate given both as a file and as data and with no
  credentials at all, and identity information with a token and a password.
\<close>

definition certOnlyAuthInfo :: AuthInfo where
  "certOnlyAuthInfo =
     emptyAuthInfo\<lparr>ClientCertificate := ''client.crt'', ClientCertificateData := ''PEM''\<rparr>"

definition twoMethodsAuthInfo :: AuthInfo where
  "twoMethodsAuthInfo = emptyAuthInfo\<lparr>Token := ''tok'', AuthInfo.Password := ''secret''\<rparr>"

text \<open>
  A request with a query parameter named \<^verbatim>\<open>timeout\<close> and a timeout of one second.
\<close>

definition timeoutParamRequest :: Request where
  "timeoutParamRequest =
     Request_Timeout (Param (RESTClient_Get examplePlatform basicClient) ''timeout'' ''5'') Second"

text \<open>
  A platform whose server knows one user and the authorization endpoint: GET on
  \<^verbatim>\<open>/v1/users/bob\<close> and POST on \<^verbatim>\<open>/v1/authz\<close> are answered with status 200, every other
  exchange with status 404.
\<close>

definition routingPlatform :: platform where
  "routingPlatform =
     examplePlatform\<lparr>EndBytes :=
        (\<lambda>agent method url bdy.
           if method = ''GET'' \<and> URL.Path url = ''/v1/users/bob''
           then (\<lparr>StatusCode = 200\<rparr>, ''bob'', [])
           else if method = ''POST'' \<and> URL.Path url = ''/v1/authz''
           then (\<lparr>StatusCode = 200\<rparr>, ''allowed'', [])
           else (\<lparr>StatusCode = 404\<rparr>, ''not found'', []))\<rparr>"

text \<open>
  A client config with basic authentication and no TLS settings, the same with a server name
  for TLS, and the same with the insecure flag and a CA file.
\<close>

definition exampleConfig :: Config where
  "exampleConfig =
     \<lparr>Config.Host = ''http://iam.example.com:8080'', APIPath = ''/'',
      Config.ContentConfig =
        \<lparr>ServiceName = [], ContentConfig.AcceptContentTypes = [],
         ContentConfig.ContentType = [],
         ContentConfig.GroupVersion = Some \<lparr>Group = ''iam.api'', Version = ''v1''\<rparr>,
         ContentConfig.Negotiator = Some (ClientNegotiator (Inr (Decoder ''json'')))\<rparr>,
      Config.Username = ''admin'', Config.Password = ''Admin@2021'',
      Config.SecretID = [], Config.SecretKey = [],
      Config.BearerToken = [], Config.BearerTokenFile = [],
      Config.TLSClientConfig = exampleTLS,
      UserAgent = [], Config.Timeout = 30 * Second, Config.MaxRetries = 3,
      Config.RetryInterval = Second\<rparr>"

definition serverNameConfig :: Config where
  "serverNameConfig =
     exampleConfig\<lparr>Config.TLSClientConfig :=
                     exampleTLS\<lparr>TLSClientConfig.ServerName := ''iam.example.com''\<rparr>\<rparr>"

definition insecureCAConfig :: Config where
  "insecureCAConfig =
     exampleConfig\<lparr>Config.TLSClientConfig :=
                     exampleTLS\<lparr>Insecure := True, CAFile := ''ca.pem''\<rparr>\<rparr>"

text \<open>
  A platform with one config file, \<^verbatim>\<open>iam.yaml\<close>, whose content is the YAML document
  \<^verbatim>\<open>user: null\<close>. For a null value yaml.v3 sets a pointer field to \<^verbatim>\<open>nil\<close>, so decoding that
  document into a config leaves the config with no \<^verbatim>\<open>AuthInfo\<close>.
\<close>

definition nullUserPlatform :: platform where
  "nullUserPlatform =
     examplePlatform\<lparr>
       ReadFile := (\<lambda>file. if file = ''iam.yaml'' then Inr ''user: null''
                           else Inl (ExternalError ''no such file or directory'')),
       yaml_Unmarshal := (\<lambda>dat config. if dat = ''user: null''
                                        then Inr (config\<lparr>AuthInfo := None\<rparr>)
                                        else Inl (ExternalError ''cannot unmarshal''))\<rparr>"

section \<open>Facts about the request builder\<close>

lemma strings_Contains_single: "strings_Contains s [ch] \<longleftrightarrow> ch \<in> set s"
  by (induction s) auto

lemma IsValidPathSegmentName_nonempty:
  "IsValidPathSegmentName name \<noteq> [] \<longleftrightarrow>
     name = ''.'' \<or> name = ''..'' \<or> CHR ''/'' \<in> set name \<or> CHR ''%'' \<in> set name"
  by (auto simp: IsValidPathSegmentName_def NameMayNotBe_def NameMayNotContain_def
      strings_Contains_single split: list.splits)

lemma NewRequest_restClient: "restClient (NewRequest pf c) = c"
  by (simp add: NewRequest_def SetHeader_def Let_def)

lemma NewRequest_resourceName: "resourceName (NewRequest pf c) = []"
  by (simp add: NewRequest_def SetHeader_def Let_def)

lemma NewRequest_resource: "resource (NewRequest pf c) = []"
  by (simp add: NewRequest_def SetHeader_def Let_def)

lemma NewRequest_conflict:
  "authMethod (content c) > 1 \<Longrightarrow> Request.err (NewRequest pf c) = Some ErrAuthMethods"
  by (simp add: NewRequest_def Let_def)

lemma NewRequest_no_conflict:
  "authMethod (content c) \<le> 1 \<Longrightarrow> Request.err (NewRequest pf c) = None"
  by (simp add: NewRequest_def SetHeader_def Let_def)

lemma authMethod_basicClient: "authMethod (content basicClient) = 1"
  by (simp add: basicClient_def clientWith_def exampleContent_def authMethod_def
      HasBasicAuth_def HasTokenAuth_def HasKeyAuth_def)

lemma authMethod_conflictClient: "authMethod (content conflictClient) = 2"
  by (simp add: conflictClient_def clientWith_def exampleContent_def authMethod_def
      HasBasicAuth_def HasTokenAuth_def HasKeyAuth_def)

section \<open>Names of path segments (C4)\<close>

text \<open>
  C4. \<^verbatim>\<open>IsValidPathSegmentName\<close> returns a list with at least one message exactly when the
  name is \<^verbatim>\<open>.\<close> or \<^verbatim>\<open>..\<close> or contains a slash or a percent sign. On a request that has no
  error recorded yet, \<^verbatim>\<open>Name\<close> records an error exactly when the name is empty, a name was
  already set, or the name fails that validation; and a name that passes, given to a request
  that has no name yet, is stored as it is, with every other field of the request unchanged.
\<close>

theorem Name_validation:
  "(IsValidPathSegmentName name \<noteq> [] \<longleftrightarrow>
      name = ''.'' \<or> name = ''..'' \<or> CHR ''/'' \<in> set name \<or> CHR ''%'' \<in> set name)
   \<and> (Request.err r = None \<longrightarrow>
        (Request.err (Name r name) \<noteq> None \<longleftrightarrow>
           name = [] \<or> resourceName r \<noteq> [] \<or> IsValidPathSegmentName name \<noteq> [])
        \<and> (IsValidPathSegmentName name = [] \<and> name \<noteq> [] \<and> resourceName r = [] \<longrightarrow>
             Name r name = r\<lparr>resourceName := name\<rparr>))"
  by (simp add: IsValidPathSegmentName_nonempty Name_def)

theorem Name_validation_witness:
  "Request.err (NewRequest examplePlatform basicClient) = None
   \<and> Name (NewRequest examplePlatform basicClient) ''bob''
       = (NewRequest examplePlatform basicClient)\<lparr>resourceName := ''bob''\<rparr>
   \<and> Request.err (Name (NewRequest examplePlatform basicClient) ''a/b'') \<noteq> None"
proof -
  have ok: "IsValidPathSegmentName ''bob'' = []"
    using IsValidPathSegmentName_nonempty [of "''bob''"] by simp
  have bad: "IsValidPathSegmentName ''a/b'' \<noteq> []"
    using IsValidPathSegmentName_nonempty [of "''a/b''"] by simp
  have noerr: "Request.err (NewRequest examplePlatform basicClient) = None"
    using NewRequest_no_conflict [of basicClient examplePlatform] authMethod_basicClient
    by simp
  show ?thesis
    using Name_validation [of "''bob''" "NewRequest examplePlatform basicClient"]
      Name_validation [of "''a/b''" "NewRequest examplePlatform basicClient"]
      noerr NewRequest_resourceName ok bad
    by blast
qed

section \<open>Authentication (C1)\<close>

lemma canon_Authorization: "CanonicalMIMEHeaderKey ''Authorization'' = ''Authorization''"
  by (simp add: CanonicalMIMEHeaderKey_def validHeaderFieldByte_def toUpperByte_def
      toLowerByte_def upperLetters_def lowerLetters_def Let_def)

lemma canon_Accept: "CanonicalMIMEHeaderKey ''Accept'' = ''Accept''"
  by (simp add: CanonicalMIMEHeaderKey_def validHeaderFieldByte_def toUpperByte_def
      toLowerByte_def upperLetters_def lowerLetters_def Let_def)

lemma SetHeader_single:
  "map_of (headers (SetHeader r key [val])) k
     = (if k = CanonicalMIMEHeaderKey key then Some [val] else map_of (headers r) k)"
  by (simp add: SetHeader_def Header_Add_def Header_Del_def Values_Add_def Values_Get_def
      update_conv' delete_conv')

lemma NewRequest_Authorization:
  "map_of (headers (NewRequest pf c)) ''Authorization''
     = (if authMethod (content c) > 1 then None
        else if HasTokenAuth (content c) then
          Some [''Bearer '' @ ClientContentConfig.BearerToken (content c)]
        else if HasKeyAuth (content c) then
          Some [''Bearer '' @ auth_Sign pf (ClientContentConfig.SecretID (content c))
                  (ClientContentConfig.SecretKey (content c)) ''marmotedu-sdk-go''
                  (group c @ ''.marmotedu.com'')]
        else if HasBasicAuth (content c) then
          Some [''Basic '' @ basicAuth (ClientContentConfig.Username (content c))
                  (ClientContentConfig.Password (content c))]
        else None)"
  by (simp add: NewRequest_def Let_def SetHeader_single canon_Authorization canon_Accept)

lemma authMethod_one:
  "authMethod cont = 1 \<longleftrightarrow>
     (HasBasicAuth cont \<and> \<not> HasTokenAuth cont \<and> \<not> HasKeyAuth cont)
     \<or> (\<not> HasBasicAuth cont \<and> HasTokenAuth cont \<and> \<not> HasKeyAuth cont)
     \<or> (\<not> HasBasicAuth cont \<and> \<not> HasTokenAuth cont \<and> HasKeyAuth cont)"
  by (auto simp: authMethod_def)

lemma validateAuthInfo_method_error:
  "ErrMoreThanOneAuthMethod (authInfoMethods a) \<in> set (validateAuthInfo pf a)
     \<longleftrightarrow> length (authInfoMethods a) > 1"
  apply (simp only: validateAuthInfo_def Let_def)
  apply (simp only: if_True if_False simp_thms)
  apply (simp only: set_append split: if_split option.split)
  apply simp
  done

lemma validateAuthInfo_nonempty:
  "validateAuthInfo pf a \<noteq> [] \<longleftrightarrow>
     length (authInfoMethods a) > 1
     \<or> (ClientCertificate a \<noteq> [] \<and> ClientCertificateData a \<noteq> [])"
  by (auto simp: validateAuthInfo_def Let_def split: option.splits)

lemma authMethod_tokenClient:
  "authMethod (content tokenClient) = 1 \<and> HasTokenAuth (content tokenClient)"
  by (simp add: tokenClient_def clientWith_def exampleContent_def authMethod_def
      HasBasicAuth_def HasTokenAuth_def HasKeyAuth_def)

lemma authMethod_keyClient:
  "authMethod (content keyClient) = 1 \<and> HasKeyAuth (content keyClient)"
  by (simp add: keyClient_def clientWith_def exampleContent_def authMethod_def
      HasBasicAuth_def HasTokenAuth_def HasKeyAuth_def)

lemma HasBasicAuth_basicClient: "HasBasicAuth (content basicClient)"
  by (simp add: basicClient_def clientWith_def exampleContent_def HasBasicAuth_def)

lemma base64_admin: "base64_EncodeToString ''admin:Admin@2021'' = ''YWRtaW46QWRtaW5AMjAyMQ==''"
  by (simp add: b64_def encodeStd_def Let_def)

text \<open>
  C1, as the code has it. \<^verbatim>\<open>NewRequest\<close> counts how many of \<^verbatim>\<open>HasBasicAuth\<close>,
  \<^verbatim>\<open>HasTokenAuth\<close> and \<^verbatim>\<open>HasKeyAuth\<close> hold. When more than one holds, the request has
  the error recorded and no \<^verbatim>\<open>Authorization\<close> header. When exactly one holds, no error is
  recorded and the header is \<^verbatim>\<open>Bearer\<close> and the bearer token for token
  authentication, \<^verbatim>\<open>Bearer\<close> and the signed token for key authentication, and
  \<^verbatim>\<open>Basic\<close> and the base64 text of user name, colon, password for basic authentication.
  \<^verbatim>\<open>validateAuthInfo\<close> reports its error about more than one authentication method
  exactly when more than one of its methods (token; user name or password; secret id or
  secret key) is populated; the list it returns is not empty exactly when that is so or when
  a client certificate is given both as a file and as data.
\<close>

theorem auth_strategy:
  "(authMethod (content c) > 1 \<longrightarrow>
      Request.err (NewRequest pf c) = Some ErrAuthMethods
      \<and> map_of (headers (NewRequest pf c)) ''Authorization'' = None)
   \<and> (authMethod (content c) = 1 \<and> HasTokenAuth (content c) \<longrightarrow>
        Request.err (NewRequest pf c) = None
        \<and> map_of (headers (NewRequest pf c)) ''Authorization''
            = Some [''Bearer '' @ ClientContentConfig.BearerToken (content c)])
   \<and> (authMethod (content c) = 1 \<and> HasKeyAuth (content c) \<longrightarrow>
        Request.err (NewRequest pf c) = None
        \<and> map_of (headers (NewRequest pf c)) ''Authorization''
            = Some [''Bearer '' @ auth_Sign pf (ClientContentConfig.SecretID (content c))
                      (ClientContentConfig.SecretKey (content c)) ''marmotedu-sdk-go''
                      (group c @ ''.marmotedu.com'')])
   \<and> (authMethod (content c) = 1 \<and> HasBasicAuth (content c) \<longrightarrow>
        Request.err (NewRequest pf c) = None
        \<and> map_of (headers (NewRequest pf c)) ''Authorization''
            = Some [''Basic '' @ base64_EncodeToString
                      (ClientContentConfig.Username (content c) @ '':''
                       @ ClientContentConfig.Password (content c))])
   \<and> (ErrMoreThanOneAuthMethod (authInfoMethods a) \<in> set (validateAuthInfo pf a)
        \<longleftrightarrow> length (authInfoMethods a) > 1)
   \<and> (validateAuthInfo pf a \<noteq> [] \<longleftrightarrow>
        length (authInfoMethods a) > 1
        \<or> (ClientCertificate a \<noteq> [] \<and> ClientCertificateData a \<noteq> []))"
proof -
  have one: "authMethod (content c) = 1 \<Longrightarrow> Request.err (NewRequest pf c) = None"
    using NewRequest_no_conflict [of c pf] by simp
  show ?thesis
    using one NewRequest_conflict [of c pf] authMethod_one [of "content c"]
    by (auto simp: NewRequest_Authorization validateAuthInfo_method_error
        validateAuthInfo_nonempty basicAuth_def)
qed

theorem auth_strategy_witness:
  "Request.err (NewRequest examplePlatform conflictClient) = Some ErrAuthMethods
   \<and> map_of (headers (NewRequest examplePlatform conflictClient)) ''Authorization'' = None
   \<and> map_of (headers (NewRequest examplePlatform tokenClient)) ''Authorization''
       = Some [''Bearer tok'']
   \<and> map_of (headers (NewRequest examplePlatform keyClient)) ''Authorization''
       = Some [''Bearer id.marmotedu-sdk-go.iam.api.marmotedu.com'']
   \<and> map_of (headers (NewRequest examplePlatform basicClient)) ''Authorization''
       = Some [''Basic YWRtaW46QWRtaW5AMjAyMQ=='']
   \<and> validateAuthInfo examplePlatform twoMethodsAuthInfo
       = [ErrMoreThanOneAuthMethod [''token'', ''basicAuth'']]"
proof -
  have conflict: "authMethod (content conflictClient) > 1"
    using authMethod_conflictClient by simp
  have tok: "ClientContentConfig.BearerToken (content tokenClient) = ''tok''"
    by (simp add: tokenClient_def clientWith_def exampleContent_def)
  have key: "auth_Sign examplePlatform (ClientContentConfig.SecretID (content keyClient))
               (ClientContentConfig.SecretKey (content keyClient)) ''marmotedu-sdk-go''
               (group keyClient @ ''.marmotedu.com'')
             = ''id.marmotedu-sdk-go.iam.api.marmotedu.com''"
    by (simp add: keyClient_def clientWith_def exampleContent_def examplePlatform_def)
  have basic: "ClientContentConfig.Username (content basicClient) @ '':''
                 @ ClientContentConfig.Password (content basicClient) = ''admin:Admin@2021''"
    by (simp add: basicClient_def clientWith_def exampleContent_def)
  have two: "authInfoMethods twoMethodsAuthInfo = [''token'', ''basicAuth'']"
    by (simp add: twoMethodsAuthInfo_def emptyAuthInfo_def authInfoMethods_def)
  have val: "validateAuthInfo examplePlatform twoMethodsAuthInfo
               = [ErrMoreThanOneAuthMethod [''token'', ''basicAuth'']]"
    by (simp add: validateAuthInfo_def two) (simp add: twoMethodsAuthInfo_def emptyAuthInfo_def)
  show ?thesis
    using auth_strategy [of conflictClient examplePlatform twoMethodsAuthInfo]
      auth_strategy [of tokenClient examplePlatform twoMethodsAuthInfo]
      auth_strategy [of keyClient examplePlatform twoMethodsAuthInfo]
      auth_strategy [of basicClient examplePlatform twoMethodsAuthInfo]
      conflict authMethod_tokenClient authMethod_keyClient authMethod_basicClient
      HasBasicAuth_basicClient tok key basic base64_admin val
    by simp
qed

text \<open>
  The claim as it is written fails for \<^verbatim>\<open>validateAuthInfo\<close>: with no authentication method
  populated at all, a client certificate given both as a file and as data is reported as an
  error.
\<close>

theorem validateAuthInfo_counterexample:
  "authInfoMethods certOnlyAuthInfo = []
   \<and> validateAuthInfo examplePlatform certOnlyAuthInfo
       = [ErrClientCertBoth, ErrClientKeyMissing,
          ErrUnableToReadClientCert ''client.crt'' (ExternalError ''no such file or directory'')]"
  by (simp add: certOnlyAuthInfo_def emptyAuthInfo_def validateAuthInfo_def authInfoMethods_def
      examplePlatform_def)

section \<open>The URL of a request (C2)\<close>

lemma Values_Get_Add:
  "Values_Get (Values_Add q key val) k
     = (if k = key then Values_Get q key @ [val] else Values_Get q k)"
  by (simp add: Values_Add_def Values_Get_def update_conv')

lemma Values_Get_Set:
  "Values_Get (Values_Set q key val) k = (if k = key then [val] else Values_Get q k)"
  by (simp add: Values_Set_def Values_Get_def update_conv')

lemma Values_Get_add_all:
  "Values_Get (foldl (\<lambda>q' val. Values_Add q' key val) q vals) k
     = (if k = key then Values_Get q key @ vals else Values_Get q k)"
  by (induction vals arbitrary: q) (simp_all add: Values_Get_Add)

lemma Values_Get_missing: "k \<notin> fst ` set ps \<Longrightarrow> Values_Get ps k = []"
  by (simp add: Values_Get_def map_of_eq_None_iff [THEN iffD2])

lemma Values_Get_copy:
  "distinct (map fst ps) \<Longrightarrow>
   Values_Get (foldl (\<lambda>q (key, vals). foldl (\<lambda>q' val. Values_Add q' key val) q vals) q ps) k
     = Values_Get q k @ Values_Get ps k"
proof (induction ps arbitrary: q)
  case Nil
  then show ?case by (simp add: Values_Get_def)
next
  case (Cons kv ps)
  obtain key vals where kv: "kv = (key, vals)" by (cases kv)
  from Cons.prems kv have d: "distinct (map fst ps)" and nk: "key \<notin> fst ` set ps"
    by auto
  have hd: "Values_Get ((key, vals) # ps) k = (if k = key then vals else Values_Get ps k)"
    by (simp add: Values_Get_def)
  show ?case
    using Cons.IH [OF d] Values_Get_missing [OF nk]
    by (simp add: kv Values_Get_add_all hd)
qed

lemma URL_query_Get:
  "distinct (map fst (params r)) \<Longrightarrow>
   Values_Get (URL_query pf r) k
     = (if timeout r \<noteq> 0 \<and> k = ''timeout'' then [Duration_String pf (timeout r)]
        else Values_Get (params r) k)"
  using Values_Get_copy [of "params r" "[]" k]
  by (simp add: URL_query_def Let_def Values_Get_Set) (simp add: Values_Get_def)

lemma setParam_params:
  "Values_Get (params (setParam r paramName val)) k
     = (if k = paramName then Values_Get (params r) paramName @ [val]
        else Values_Get (params r) k)"
  by (simp add: setParam_def Values_Get_Add)

lemma setParam_distinct:
  "distinct (map fst (params r)) \<Longrightarrow> distinct (map fst (params (setParam r paramName val)))"
  by (simp add: setParam_def Values_Add_def distinct_update)

lemma NewRequest_params: "params (NewRequest pf c) = []"
  by (simp add: NewRequest_def SetHeader_def Let_def)

lemma RESTClient_Get_basicClient:
  "Request.err (RESTClient_Get examplePlatform basicClient) = None
   \<and> params (RESTClient_Get examplePlatform basicClient) = []
   \<and> timeout (RESTClient_Get examplePlatform basicClient) = 0"
  using NewRequest_no_conflict [of basicClient examplePlatform] authMethod_basicClient
  by (simp add: RESTClient_Get_def RESTClient_Verb_def Verb_def NewRequest_params)
    (simp add: NewRequest_def SetHeader_def Let_def)

lemma timeoutParamRequest_fields:
  "params timeoutParamRequest = [(''timeout'', [''5''])] \<and> timeout timeoutParamRequest = Second"
  using RESTClient_Get_basicClient
  by (simp add: timeoutParamRequest_def Request_Timeout_def Param_def setParam_def
      Values_Add_def Values_Get_def)

text \<open>
  C2, as the code has it. The path of the URL is the path prefix, joined with the resource in
  lower case when a resource is set, and joined further with resource name, subresource and
  subpath when one of them is not empty; the raw query is the encoding of the values
  \<^verbatim>\<open>query\<close>. For parameters held under distinct keys (a Go map), \<^verbatim>\<open>query\<close> has under
  every key the values of the parameters, except that with a timeout other than zero the key
  \<^verbatim>\<open>timeout\<close> holds the text of the duration and nothing else; and \<^verbatim>\<open>setParam\<close> appends
  its value to the values of its key and leaves the other keys alone.
\<close>

theorem URL_assembly:
  "URL.Path (Request_URL pf r)
     = (let p = (if resource r = [] then pathPrefix r
                 else path_Join [pathPrefix r, strings_ToLower (resource r)])
        in if resourceName r = [] \<and> subresource r = [] \<and> subpath r = [] then p
           else path_Join [p, resourceName r, subresource r, subpath r])
   \<and> RawQuery (Request_URL pf r) = Values_Encode pf (URL_query pf r)
   \<and> (distinct (map fst (params r)) \<longrightarrow>
        (\<forall>k. Values_Get (URL_query pf r) k
               = (if timeout r \<noteq> 0 \<and> k = ''timeout'' then [Duration_String pf (timeout r)]
                  else Values_Get (params r) k))
        \<and> distinct (map fst (params (setParam r paramName val)))
        \<and> (\<forall>k. Values_Get (params (setParam r paramName val)) k
                  = (if k = paramName then Values_Get (params r) paramName @ [val]
                     else Values_Get (params r) k)))"
proof -
  have path: "URL.Path (Request_URL pf r)
     = (let p = (if resource r = [] then pathPrefix r
                 else path_Join [pathPrefix r, strings_ToLower (resource r)])
        in if resourceName r = [] \<and> subresource r = [] \<and> subpath r = [] then p
           else path_Join [p, resourceName r, subresource r, subpath r])"
    by (auto simp: Request_URL_def URL_p_def Let_def split: option.splits)
  have raw: "RawQuery (Request_URL pf r) = Values_Encode pf (URL_query pf r)"
    by (simp add: Request_URL_def Let_def split: option.splits)
  show ?thesis
    using path raw URL_query_Get [of r pf] setParam_distinct [of r paramName val]
      setParam_params [of r paramName val]
    by simp
qed

theorem URL_assembly_witness:
  "distinct (map fst (params timeoutParamRequest))
   \<and> Values_Get (URL_query examplePlatform timeoutParamRequest) ''timeout'' = [''1s'']
   \<and> Values_Get (URL_query examplePlatform (setParam timeoutParamRequest ''page'' ''2'')) ''page''
       = [''2'']"
proof -
  have d: "distinct (map fst (params timeoutParamRequest))"
    using timeoutParamRequest_fields by simp
  have t: "timeout timeoutParamRequest = Second" "Second \<noteq> 0"
    "Duration_String examplePlatform Second = ''1s''"
    using timeoutParamRequest_fields by (simp_all add: Second_def examplePlatform_def)
  have t2: "timeout (setParam timeoutParamRequest ''page'' ''2'') = Second"
    using t by (simp add: setParam_def)
  have g: "Values_Get (params timeoutParamRequest) ''page'' = []"
    using timeoutParamRequest_fields by (simp add: Values_Get_def)
  show ?thesis
    using URL_assembly [of examplePlatform timeoutParamRequest "''page''" "''2''"]
      URL_assembly [of examplePlatform "setParam timeoutParamRequest ''page'' ''2''" "''page''" "''2''"]
      d t t2 g
    by simp
qed

text \<open>
  The claim as it is written fails: a parameter \<^verbatim>\<open>timeout\<close> added with \<^verbatim>\<open>Param\<close> is not in
  the query once a timeout is set, since the timeout is written with \<^verbatim>\<open>Set\<close>.
\<close>

theorem URL_query_counterexample:
  "Values_Get (params timeoutParamRequest) ''timeout'' = [''5'']
   \<and> Values_Get (URL_query examplePlatform timeoutParamRequest) ''timeout'' = [''1s'']"
  using timeoutParamRequest_fields
  by (simp add: URL_query_def Values_Get_def Values_Add_def Values_Set_def Second_def
      examplePlatform_def)

section \<open>Recorded errors (C10)\<close>

text \<open>
  Once a request has an error recorded, each of the ten builder calls returns the request as
  it is.
\<close>

lemma setters_latched:
  assumes "Request.err r \<noteq> None"
  shows "Prefix r segments = r" and "Suffix r segments = r" and "Resource r res = r"
    and "SubResource r subresources = r" and "Name r name = r"
    and "AbsPath r segments = Returns r" and "RequestURI pf r uri = r"
    and "Param r paramName s = r" and "VersionedParams r v = r"
    and "Request_Timeout r d = r"
  using assms
  by (simp_all add: Prefix_def Suffix_def Resource_def SubResource_def Name_def AbsPath_def
      RequestURI_def Param_def VersionedParams_def Request_Timeout_def)


lemma Do_status_ok:
  assumes "EndBytes pf ((Client (restClient r))\<lparr>Header := headers r\<rparr>) (verb r)
             (Request_URL pf r) (Request.body r) = (resp, bdy, [])"
    and "StatusCode resp = StatusOK"
    and "ClientContentConfig.Negotiator (content (restClient r)) = Some (ClientNegotiator (Inr d))"
  shows "Do pf r = Returns \<lparr>response = resp, Result.err = None, Result.body = bdy,
                            decoder = Some d\<rparr>"
  using assms by (simp add: Do_def combineErr_def Let_def)

lemma users_Delete_request_conflict:
  "Request.err (users_Delete_request examplePlatform conflictClient ''bob'' ''{}'')
     = Some ErrAuthMethods
   \<and> restClient (users_Delete_request examplePlatform conflictClient ''bob'' ''{}'')
     = conflictClient"
  using NewRequest_conflict [of conflictClient examplePlatform] authMethod_conflictClient
  by (simp add: users_Delete_request_def RESTClient_Delete_def RESTClient_Verb_def Verb_def
      Resource_def Name_def Body_def NewRequest_restClient)

text \<open>
  C10, at an input where the code departs from it. The client has a user name and a bearer
  token, so the request that \<^verbatim>\<open>Delete\<close> builds has the error of \<^verbatim>\<open>NewRequest\<close> recorded; the
  server answers 200. \<^verbatim>\<open>Do\<close> never reads the recorded error: the request is sent, and
  \<^verbatim>\<open>Do(ctx).Error()\<close> is \<^verbatim>\<open>nil\<close>.
\<close>

theorem Do_skips_recorded_error:
  "Request.err (users_Delete_request examplePlatform conflictClient ''bob'' ''{}'')
     = Some ErrAuthMethods
   \<and> users_Delete examplePlatform conflictClient ''bob'' ''{}'' = Returns None"
proof -
  let ?r = "users_Delete_request examplePlatform conflictClient ''bob'' ''{}''"
  have neg: "ClientContentConfig.Negotiator (content (restClient ?r))
               = Some (ClientNegotiator (Inr (Decoder ''json'')))"
    using users_Delete_request_conflict
    by (simp add: conflictClient_def clientWith_def exampleContent_def)
  have ex: "EndBytes examplePlatform ((Client (restClient ?r))\<lparr>Header := headers ?r\<rparr>) (verb ?r)
              (Request_URL examplePlatform ?r) (Request.body ?r)
            = (\<lparr>StatusCode = 200\<rparr>, ''{}'', [])"
    by (simp add: examplePlatform_def)
  have "Do examplePlatform ?r
          = Returns \<lparr>response = \<lparr>StatusCode = 200\<rparr>, Result.err = None, Result.body = ''{}'',
                     decoder = Some (Decoder ''json'')\<rparr>"
    using Do_status_ok [OF ex _ neg] by (simp add: StatusOK_def)
  then have "users_Delete examplePlatform conflictClient ''bob'' ''{}'' = Returns None"
    by (simp add: users_Delete_def DoError_def Result_Error_def)
  then show ?thesis using users_Delete_request_conflict by simp
qed

section \<open>The typed clients (C3)\<close>

lemma verb_kept:
  "verb (Resource r res) = verb r" "verb (Name r name) = verb r"
  "verb (VersionedParams r v) = verb r" "verb (Request_Timeout r d) = verb r"
  "verb (Body r obj) = verb r"
  by (simp_all add: Resource_def Name_def VersionedParams_def Request_Timeout_def Body_def
      SetHeader_def split: object.splits)

lemma resource_kept:
  "resource (Name r name) = resource r"
  "resource (VersionedParams r v) = resource r" "resource (Request_Timeout r d) = resource r"
  "resource (Body r obj) = resource r"
  by (simp_all add: Name_def VersionedParams_def Request_Timeout_def Body_def
      SetHeader_def split: object.splits)

lemma RESTClient_Verb_fields:
  "verb (RESTClient_Verb pf c v) = v"
  "resource (RESTClient_Verb pf c v) = []"
  "Request.err (RESTClient_Verb pf c v) = Request.err (NewRequest pf c)"
  by (simp_all add: RESTClient_Verb_def Verb_def NewRequest_resource)

lemma Resource_sets:
  "Request.err r = None \<Longrightarrow> resource r = [] \<Longrightarrow> IsValidPathSegmentName res = [] \<Longrightarrow>
   resource (Resource r res) = res"
  by (simp add: Resource_def)

lemma resource_names_valid:
  "IsValidPathSegmentName ''users'' = []" "IsValidPathSegmentName ''secrets'' = []"
  "IsValidPathSegmentName ''policies'' = []" "IsValidPathSegmentName ''authz'' = []"
  using IsValidPathSegmentName_nonempty [of "''users''"]
    IsValidPathSegmentName_nonempty [of "''secrets''"]
    IsValidPathSegmentName_nonempty [of "''policies''"]
    IsValidPathSegmentName_nonempty [of "''authz''"]
  by simp_all

lemmas request_defs =
  users_Get_request_def users_List_request_def users_Create_request_def
  users_Update_request_def users_Delete_request_def users_DeleteCollection_request_def
  secrets_Get_request_def secrets_List_request_def secrets_Create_request_def
  secrets_Update_request_def secrets_Delete_request_def secrets_DeleteCollection_request_def
  policies_Get_request_def policies_List_request_def policies_Create_request_def
  policies_Update_request_def policies_Delete_request_def policies_DeleteCollection_request_def
  authz_Authorize_request_def
  RESTClient_Get_def RESTClient_Post_def RESTClient_Put_def RESTClient_Delete_def

lemma users_verbs:
  "verb (users_Get_request pf c name options) = ''GET''
   \<and> verb (users_List_request pf c listOpts) = ''GET''
   \<and> verb (users_Create_request pf c obj opts) = ''POST''
   \<and> verb (users_Update_request pf c obj opts) = ''PUT''
   \<and> verb (users_Delete_request pf c name opts) = ''DELETE''
   \<and> verb (users_DeleteCollection_request pf c opts listOpts) = ''DELETE''"
  by (simp add: request_defs verb_kept RESTClient_Verb_fields)

lemma users_resources:
  assumes "Request.err (NewRequest pf c) = None"
  shows "resource (users_Get_request pf c name options) = ''users''
   \<and> resource (users_List_request pf c listOpts) = ''users''
   \<and> resource (users_Create_request pf c obj opts) = ''users''
   \<and> resource (users_Update_request pf c obj opts) = ''users''
   \<and> resource (users_Delete_request pf c name opts) = ''users''
   \<and> resource (users_DeleteCollection_request pf c opts listOpts) = ''users''"
  using assms
  by (simp add: request_defs resource_kept RESTClient_Verb_fields Resource_sets
      resource_names_valid)

lemma secrets_verbs:
  "verb (secrets_Get_request pf c name options) = ''GET''
   \<and> verb (secrets_List_request pf c listOpts) = ''GET''
   \<and> verb (secrets_Create_request pf c obj opts) = ''POST''
   \<and> verb (secrets_Update_request pf c obj opts) = ''PUT''
   \<and> verb (secrets_Delete_request pf c name opts) = ''DELETE''
   \<and> verb (secrets_DeleteCollection_request pf c opts listOpts) = ''DELETE''"
  by (simp add: request_defs verb_kept RESTClient_Verb_fields)

lemma secrets_resources:
  assumes "Request.err (NewRequest pf c) = None"
  shows "resource (secrets_Get_request pf c name options) = ''secrets''
   \<and> resource (secrets_List_request pf c listOpts) = ''secrets''
   \<and> resource (secrets_Create_request pf c obj opts) = ''secrets''
   \<and> resource (secrets_Update_request pf c obj opts) = ''secrets''
   \<and> resource (secrets_Delete_request pf c name opts) = ''secrets''
   \<and> resource (secrets_DeleteCollection_request pf c opts listOpts) = ''secrets''"
  using assms
  by (simp add: request_defs resource_kept RESTClient_Verb_fields Resource_sets
      resource_names_valid)

lemma policies_verbs:
  "verb (policies_Get_request pf c name options) = ''GET''
   \<and> verb (policies_List_request pf c listOpts) = ''GET''
   \<and> verb (policies_Create_request pf c obj opts) = ''POST''
   \<and> verb (policies_Update_request pf c obj opts) = ''PUT''
   \<and> verb (policies_Delete_request pf c name opts) = ''DELETE''
   \<and> verb (policies_DeleteCollection_request pf c opts listOpts) = ''DELETE''"
  by (simp add: request_defs verb_kept RESTClient_Verb_fields)

lemma policies_resources:
  assumes "Request.err (NewRequest pf c) = None"
  shows "resource (policies_Get_request pf c name options) = ''policies''
   \<and> resource (policies_List_request pf c listOpts) = ''policies''
   \<and> resource (policies_Create_request pf c obj opts) = ''policies''
   \<and> resource (policies_Update_request pf c obj opts) = ''policies''
   \<and> resource (policies_Delete_request pf c name opts) = ''policies''
   \<and> resource (policies_DeleteCollection_request pf c opts listOpts) = ''policies''"
  using assms
  by (simp add: request_defs resource_kept RESTClient_Verb_fields Resource_sets
      resource_names_valid)

lemma authz_request:
  "verb (authz_Authorize_request pf c request opts) = ''POST''
   \<and> (Request.err (NewRequest pf c) = None \<longrightarrow>
        resource (authz_Authorize_request pf c request opts) = ''authz'')"
  by (simp add: request_defs verb_kept resource_kept RESTClient_Verb_fields Resource_sets
      resource_names_valid)

lemma authz_decodes:
  "Do pf (authz_Authorize_request pf c request opts) = Returns res \<Longrightarrow>
   Result.err res = None \<Longrightarrow> decoder res = Some d \<Longrightarrow>
   authz_Authorize pf decode c request opts = Returns (decode d (Result.body res))"
  by (simp add: authz_Authorize_def DoInto_def Into_def)

lemma strings_ToLower_names:
  "strings_ToLower ''users'' = ''users''" "strings_ToLower ''secrets'' = ''secrets''"
  "strings_ToLower ''policies'' = ''policies''" "strings_ToLower ''authz'' = ''authz''"
  by (simp_all add: strings_ToLower_def toLowerByte_def upperLetters_def lowerLetters_def)

lemma URL_p_collection:
  assumes "Request.err r = None" and "resource r = []" and "resourceName r = []"
    and "subresource r = []" and "subpath r = []" and "IsValidPathSegmentName res = []"
    and "res \<noteq> []"
  shows "URL_p (Resource r res) = path_Join [pathPrefix r, strings_ToLower res]"
  using assms by (simp add: URL_p_def Resource_def Let_def)

lemma URL_p_named:
  assumes "Request.err r = None" and "resource r = []" and "resourceName r = []"
    and "subresource r = []" and "subpath r = []" and "IsValidPathSegmentName res = []"
    and "res \<noteq> []" and "IsValidPathSegmentName name = []" and "name \<noteq> []"
  shows "URL_p (Name (Resource r res) name)
           = path_Join [path_Join [pathPrefix r, strings_ToLower res], name, [], []]"
  using assms by (simp add: URL_p_def Resource_def Name_def Let_def)

lemma URL_p_cong:
  "pathPrefix r' = pathPrefix r \<Longrightarrow> resource r' = resource r \<Longrightarrow>
   resourceName r' = resourceName r \<Longrightarrow> subresource r' = subresource r \<Longrightarrow>
   subpath r' = subpath r \<Longrightarrow> URL_p r' = URL_p r"
  by (simp add: URL_p_def Let_def cong: if_cong)

lemma URL_p_kept:
  "URL_p (VersionedParams r v) = URL_p r" "URL_p (Request_Timeout r d) = URL_p r"
  "URL_p (Body r obj) = URL_p r"
  by (rule URL_p_cong;
      simp add: VersionedParams_def Request_Timeout_def Body_def SetHeader_def
        split: object.splits)+

lemma RESTClient_Verb_path_fields:
  "resourceName (RESTClient_Verb pf c v) = []" "subresource (RESTClient_Verb pf c v) = []"
  "subpath (RESTClient_Verb pf c v) = []"
  "pathPrefix (RESTClient_Verb pf c v) = pathPrefix (NewRequest pf c)"
  by (simp_all add: RESTClient_Verb_def Verb_def NewRequest_def SetHeader_def Let_def)

lemma typed_paths:
  assumes "Request.err (NewRequest pf c) = None"
  shows "URL_p (users_List_request pf c listOpts) = path_Join [pathPrefix (NewRequest pf c), ''users'']
   \<and> URL_p (secrets_List_request pf c listOpts)
       = path_Join [pathPrefix (NewRequest pf c), ''secrets'']
   \<and> URL_p (policies_List_request pf c listOpts)
       = path_Join [pathPrefix (NewRequest pf c), ''policies'']
   \<and> URL_p (authz_Authorize_request pf c request opts)
       = path_Join [pathPrefix (NewRequest pf c), ''authz'']"
  using assms
  by (simp add: request_defs URL_p_kept URL_p_collection RESTClient_Verb_fields
      RESTClient_Verb_path_fields resource_names_valid strings_ToLower_names)

lemma typed_paths_named:
  assumes "Request.err (NewRequest pf c) = None" and "IsValidPathSegmentName name = []"
    and "name \<noteq> []"
  shows "URL_p (users_Get_request pf c name options)
           = path_Join [path_Join [pathPrefix (NewRequest pf c), ''users''], name, [], []]
   \<and> URL_p (secrets_Get_request pf c name options)
       = path_Join [path_Join [pathPrefix (NewRequest pf c), ''secrets''], name, [], []]
   \<and> URL_p (policies_Get_request pf c name options)
       = path_Join [path_Join [pathPrefix (NewRequest pf c), ''policies''], name, [], []]"
  using assms
  by (simp add: request_defs URL_p_kept URL_p_named RESTClient_Verb_fields
      RESTClient_Verb_path_fields resource_names_valid strings_ToLower_names)

lemma basicClient_prefix: "pathPrefix (NewRequest examplePlatform basicClient) = ''/v1''"
  by (simp add: NewRequest_def basicClient_def clientWith_def exampleURL_def SetHeader_def Let_def
      path_Join_def path_Clean_def cleanStep_def)

lemma path_users_bob:
  "path_Join [path_Join [''/v1'', ''users''], ''bob'', [], []] = ''/v1/users/bob''"
  by (simp add: path_Join_def path_Clean_def cleanStep_def)

text \<open>
  The requests that the methods of the typed clients build: their verbs, and, on a client for
  which the creation of a request records no error, their resources and paths.
\<close>

lemma typed_requests:
  "verb (users_Get_request pf c name options) = ''GET''
   \<and> verb (users_List_request pf c listOpts) = ''GET''
   \<and> verb (users_Create_request pf c obj opts) = ''POST''
   \<and> verb (users_Update_request pf c obj opts) = ''PUT''
   \<and> verb (users_Delete_request pf c name opts) = ''DELETE''
   \<and> verb (users_DeleteCollection_request pf c opts listOpts) = ''DELETE''
   \<and> verb (secrets_Get_request pf c name options) = ''GET''
   \<and> verb (secrets_List_request pf c listOpts) = ''GET''
   \<and> verb (secrets_Create_request pf c obj opts) = ''POST''
   \<and> verb (secrets_Update_request pf c obj opts) = ''PUT''
   \<and> verb (secrets_Delete_request pf c name opts) = ''DELETE''
   \<and> verb (secrets_DeleteCollection_request pf c opts listOpts) = ''DELETE''
   \<and> verb (policies_Get_request pf c name options) = ''GET''
   \<and> verb (policies_List_request pf c listOpts) = ''GET''
   \<and> verb (policies_Create_request pf c obj opts) = ''POST''
   \<and> verb (policies_Update_request pf c obj opts) = ''PUT''
   \<and> verb (policies_Delete_request pf c name opts) = ''DELETE''
   \<and> verb (policies_DeleteCollection_request pf c opts listOpts) = ''DELETE''
   \<and> verb (authz_Authorize_request pf c request opts) = ''POST''
   \<and> (Request.err (NewRequest pf c) = None \<longrightarrow>
        resource (users_Get_request pf c name options) = ''users''
        \<and> resource (users_List_request pf c listOpts) = ''users''
        \<and> resource (users_Create_request pf c obj opts) = ''users''
        \<and> resource (users_Update_request pf c obj opts) = ''users''
        \<and> resource (users_Delete_request pf c name opts) = ''users''
        \<and> resource (users_DeleteCollection_request pf c opts listOpts) = ''users''
        \<and> resource (secrets_Get_request pf c name options) = ''secrets''
        \<and> resource (secrets_List_request pf c listOpts) = ''secrets''
        \<and> resource (secrets_Create_request pf c obj opts) = ''secrets''
        \<and> resource (secrets_Update_request pf c obj opts) = ''secrets''
        \<and> resource (secrets_Delete_request pf c name opts) = ''secrets''
        \<and> resource (secrets_DeleteCollection_request pf c opts listOpts) = ''secrets''
        \<and> resource (policies_Get_request pf c name options) = ''policies''
        \<and> resource (policies_List_request pf c listOpts) = ''policies''
        \<and> resource (policies_Create_request pf c obj opts) = ''policies''
        \<and> resource (policies_Update_request pf c obj opts) = ''policies''
        \<and> resource (policies_Delete_request pf c name opts) = ''policies''
        \<and> resource (policies_DeleteCollection_request pf c opts listOpts) = ''policies''
        \<and> resource (authz_Authorize_request pf c request opts) = ''authz''
        \<and> URL_p (users_List_request pf c listOpts)
            = path_Join [pathPrefix (NewRequest pf c), ''users'']
        \<and> URL_p (secrets_List_request pf c listOpts)
            = path_Join [pathPrefix (NewRequest pf c), ''secrets'']
        \<and> URL_p (policies_List_request pf c listOpts)
            = path_Join [pathPrefix (NewRequest pf c), ''policies'']
        \<and> URL_p (authz_Authorize_request pf c request opts)
            = path_Join [pathPrefix (NewRequest pf c), ''authz''])
   \<and> (Request.err (NewRequest pf c) = None \<and> IsValidPathSegmentName name = [] \<and> name \<noteq> []
        \<longrightarrow>
        URL_p (users_Get_request pf c name options)
          = path_Join [path_Join [pathPrefix (NewRequest pf c), ''users''], name, [], []]
        \<and> URL_p (secrets_Get_request pf c name options)
            = path_Join [path_Join [pathPrefix (NewRequest pf c), ''secrets''], name, [], []]
        \<and> URL_p (policies_Get_request pf c name options)
            = path_Join [path_Join [pathPrefix (NewRequest pf c), ''policies''], name, [], []])
   \<and> (Do pf (authz_Authorize_request pf c request opts) = Returns res
        \<and> Result.err res = None \<and> decoder res = Some d \<longrightarrow>
        authz_Authorize pf decode c request opts = Returns (decode d (Result.body res)))"
  using users_verbs [of pf c name options listOpts obj opts]
    secrets_verbs [of pf c name options listOpts obj opts]
    policies_verbs [of pf c name options listOpts obj opts]
    users_resources [of pf c name options listOpts obj opts]
    secrets_resources [of pf c name options listOpts obj opts]
    policies_resources [of pf c name options listOpts obj opts]
    authz_request [of pf c request opts]
    authz_decodes [of pf c request opts res d decode]
    typed_paths [of pf c listOpts request opts]
    typed_paths_named [of pf c name options]
  by blast

lemma DoInto_exchange:
  "DoInto pf decode r
     = answerInto decode (ClientContentConfig.Negotiator (content (restClient r)))
         (EndBytes pf (sentAgent r) (verb r) (Request_URL pf r) (Request.body r))"
  by (cases "EndBytes pf (sentAgent r) (verb r) (Request_URL pf r) (Request.body r)")
    (auto simp: DoInto_def Do_def Into_def answerInto_def sentAgent_def Let_def
      split: option.splits Negotiator.splits sum.splits)

lemma DoError_exchange:
  "DoError pf r
     = answerError (ClientContentConfig.Negotiator (content (restClient r)))
         (EndBytes pf (sentAgent r) (verb r) (Request_URL pf r) (Request.body r))"
  by (cases "EndBytes pf (sentAgent r) (verb r) (Request_URL pf r) (Request.body r)")
    (auto simp: DoError_def Do_def Result_Error_def answerError_def sentAgent_def Let_def
      split: option.splits Negotiator.splits sum.splits)

lemma content_kept:
  "content (restClient (Resource r res)) = content (restClient r)"
  "content (restClient (Name r name)) = content (restClient r)"
  "content (restClient (VersionedParams r v)) = content (restClient r)"
  "content (restClient (Request_Timeout r d)) = content (restClient r)"
  "content (restClient (Body r obj)) = content (restClient r)"
  "content (restClient (RESTClient_Verb pf c vb)) = content c"
  by (simp_all add: Resource_def Name_def VersionedParams_def Request_Timeout_def Body_def
      SetHeader_def RESTClient_Verb_def Verb_def NewRequest_restClient split: object.splits)

lemma Request_URL_Path: "URL.Path (Request_URL pf r) = URL_p r"
  by (simp add: Request_URL_def Let_def split: option.splits)

lemma URL_p_named_only:
  assumes "IsValidPathSegmentName name = []" and "name \<noteq> []" and "Request.err r = None"
    and "resourceName r = []"
  shows "URL_p (Name r name)
           = path_Join [(if resource r = [] then pathPrefix r
                         else path_Join [pathPrefix r, strings_ToLower (resource r)]),
                        name, subresource r, subpath r]"
  using assms by (simp add: URL_p_def Name_def Let_def)

lemma users_contents:
  "content (restClient (users_Get_request pf c name options)) = content c
   \<and> content (restClient (users_List_request pf c listOpts)) = content c
   \<and> content (restClient (users_Create_request pf c obj opts)) = content c
   \<and> content (restClient (users_Update_request pf c obj opts)) = content c
   \<and> content (restClient (users_Delete_request pf c name opts)) = content c
   \<and> content (restClient (users_DeleteCollection_request pf c opts listOpts)) = content c"
  by (simp add: request_defs content_kept)

lemma secrets_contents:
  "content (restClient (secrets_Get_request pf c name options)) = content c
   \<and> content (restClient (secrets_List_request pf c listOpts)) = content c
   \<and> content (restClient (secrets_Create_request pf c obj opts)) = content c
   \<and> content (restClient (secrets_Update_request pf c obj opts)) = content c
   \<and> content (restClient (secrets_Delete_request pf c name opts)) = content c
   \<and> content (restClient (secrets_DeleteCollection_request pf c opts listOpts)) = content c"
  by (simp add: request_defs content_kept)

lemma policies_contents:
  "content (restClient (policies_Get_request pf c name options)) = content c
   \<and> content (restClient (policies_List_request pf c listOpts)) = content c
   \<and> content (restClient (policies_Create_request pf c obj opts)) = content c
   \<and> content (restClient (policies_Update_request pf c obj opts)) = content c
   \<and> content (restClient (policies_Delete_request pf c name opts)) = content c
   \<and> content (restClient (policies_DeleteCollection_request pf c opts listOpts)) = content c"
  by (simp add: request_defs content_kept)

lemma authz_contents:
  "content (restClient (authz_Authorize_request pf c request opts)) = content c"
  by (simp add: request_defs content_kept)

lemma users_exchanges:
  "users_Get pf decode c name options
       = answerInto decode (ClientContentConfig.Negotiator (content c))
           (EndBytes pf (sentAgent (users_Get_request pf c name options)) ''GET''
              (Request_URL pf (users_Get_request pf c name options))
              (Request.body (users_Get_request pf c name options)))
   \<and> users_List pf decode c listOpts
       = answerInto decode (ClientContentConfig.Negotiator (content c))
           (EndBytes pf (sentAgent (users_List_request pf c listOpts)) ''GET''
              (Request_URL pf (users_List_request pf c listOpts))
              (Request.body (users_List_request pf c listOpts)))
   \<and> users_Create pf decode c obj opts
       = answerInto decode (ClientContentConfig.Negotiator (content c))
           (EndBytes pf (sentAgent (users_Create_request pf c obj opts)) ''POST''
              (Request_URL pf (users_Create_request pf c obj opts))
              (Request.body (users_Create_request pf c obj opts)))
   \<and> users_Update pf decode c obj opts
       = answerInto decode (ClientContentConfig.Negotiator (content c))
           (EndBytes pf (sentAgent (users_Update_request pf c obj opts)) ''PUT''
              (Request_URL pf (users_Update_request pf c obj opts))
              (Request.body (users_Update_request pf c obj opts)))
   \<and> users_Delete pf c name opts
       = answerError (ClientContentConfig.Negotiator (content c))
           (EndBytes pf (sentAgent (users_Delete_request pf c name opts)) ''DELETE''
              (Request_URL pf (users_Delete_request pf c name opts))
              (Request.body (users_Delete_request pf c name opts)))
   \<and> users_DeleteCollection pf c opts listOpts
       = answerError (ClientContentConfig.Negotiator (content c))
           (EndBytes pf (sentAgent (users_DeleteCollection_request pf c opts listOpts)) ''DELETE''
              (Request_URL pf (users_DeleteCollection_request pf c opts listOpts))
              (Request.body (users_DeleteCollection_request pf c opts listOpts)))"
  using users_verbs
    users_contents
  by (simp add: users_Get_def users_List_def users_Create_def users_Update_def users_Delete_def users_DeleteCollection_def
      DoInto_exchange DoError_exchange)

lemma secrets_exchanges:
  "secrets_Get pf decode c name options
       = answerInto decode (ClientContentConfig.Negotiator (content c))
           (EndBytes pf (sentAgent (secrets_Get_request pf c name options)) ''GET''
              (Request_URL pf (secrets_Get_request pf c name options))
              (Request.body (secrets_Get_request pf c name options)))
   \<and> secrets_List pf decode c listOpts
       = answerInto decode (ClientContentConfig.Negotiator (content c))
           (EndBytes pf (sentAgent (secrets_List_request pf c listOpts)) ''GET''
              (Request_URL pf (secrets_List_request pf c listOpts))
              (Request.body (secrets_List_request pf c listOpts)))
   \<and> secrets_Create pf decode c obj opts
       = answerInto decode (ClientContentConfig.Negotiator (content c))
           (EndBytes pf (sentAgent (secrets_Create_request pf c obj opts)) ''POST''
              (Request_URL pf (secrets_Create_request pf c obj opts))
              (Request.body (secrets_Create_request pf c obj opts)))
   \<and> secrets_Update pf decode c obj opts
       = answerInto decode (ClientContentConfig.Negotiator (content c))
           (EndBytes pf (sentAgent (secrets_Update_request pf c obj opts)) ''PUT''
              (Request_URL pf (secrets_Update_request pf c obj opts))
              (Request.body (secrets_Update_request pf c obj opts)))
   \<and> secrets_Delete pf c name opts
       = answerError (ClientContentConfig.Negotiator (content c))
           (EndBytes pf (sentAgent (secrets_Delete_request pf c name opts)) ''DELETE''
              (Request_URL pf (secrets_Delete_request pf c name opts))
              (Request.body (secrets_Delete_request pf c name opts)))
   \<and> secrets_DeleteCollection pf c opts listOpts
       = answerError (ClientContentConfig.Negotiator (content c))
           (EndBytes pf (sentAgent (secrets_DeleteCollection_request pf c opts listOpts)) ''DELETE''
              (Request_URL pf (secrets_DeleteCollection_request pf c opts listOpts))
              (Request.body (secrets_DeleteCollection_request pf c opts listOpts)))"
  using secrets_verbs
    secrets_contents
  by (simp add: secrets_Get_def secrets_List_def secrets_Create_def secrets_Update_def secrets_Delete_def secrets_DeleteCollection_def
      DoInto_exchange DoError_exchange)

lemma policies_exchanges:
  "policies_Get pf decode c name options
       = answerInto decode (ClientContentConfig.Negotiator (content c))
           (EndBytes pf (sentAgent (policies_Get_request pf c name options)) ''GET''
              (Request_URL pf (policies_Get_request pf c name options))
              (Request.body (policies_Get_request pf c name options)))
   \<and> policies_List pf decode c listOpts
       = answerInto decode (ClientContentConfig.Negotiator (content c))
           (EndBytes pf (sentAgent (policies_List_request pf c listOpts)) ''GET''
              (Request_URL pf (policies_List_request pf c listOpts))
              (Request.body (policies_List_request pf c listOpts)))
   \<and> policies_Create pf decode c obj opts
       = answerInto decode (ClientContentConfig.Negotiator (content c))
           (EndBytes pf (sentAgent (policies_Create_request pf c obj opts)) ''POST''
              (Request_URL pf (policies_Create_request pf c obj opts))
              (Request.body (policies_Create_request pf c obj opts)))
   \<and> policies_Update pf decode c obj opts
       = answerInto decode (ClientContentConfig.Negotiator (content c))
           (EndBytes pf (sentAgent (policies_Update_request pf c obj opts)) ''PUT''
              (Request_URL pf (policies_Update_request pf c obj opts))
              (Request.body (policies_Update_request pf c obj opts)))
   \<and> policies_Delete pf c name opts
       = answerError (ClientContentConfig.Negotiator (content c))
           (EndBytes pf (sentAgent (policies_Delete_request pf c name opts)) ''DELETE''
              (Request_URL pf (policies_Delete_request pf c name opts))
              (Request.body (policies_Delete_request pf c name opts)))
   \<and> policies_DeleteCollection pf c opts listOpts
       = answerError (ClientContentConfig.Negotiator (content c))
           (EndBytes pf (sentAgent (policies_DeleteCollection_request pf c opts listOpts)) ''DELETE''
              (Request_URL pf (policies_DeleteCollection_request pf c opts listOpts))
              (Request.body (policies_DeleteCollection_request pf c opts listOpts)))"
  using policies_verbs
    policies_contents
  by (simp add: policies_Get_def policies_List_def policies_Create_def policies_Update_def policies_Delete_def policies_DeleteCollection_def
      DoInto_exchange DoError_exchange)

lemma authz_exchange:
  "authz_Authorize pf decode c request opts
     = answerInto decode (ClientContentConfig.Negotiator (content c))
         (EndBytes pf (sentAgent (authz_Authorize_request pf c request opts)) ''POST''
            (Request_URL pf (authz_Authorize_request pf c request opts))
            (Request.body (authz_Authorize_request pf c request opts)))"
  using authz_request authz_contents
  by (simp add: authz_Authorize_def DoInto_exchange)

lemma users_collection_paths:
  assumes "Request.err (NewRequest pf c) = None"
  shows "URL.Path (Request_URL pf (users_List_request pf c listOpts))
       = path_Join [pathPrefix (NewRequest pf c), ''users'']
   \<and> URL.Path (Request_URL pf (users_Create_request pf c obj opts))
       = path_Join [pathPrefix (NewRequest pf c), ''users'']
   \<and> URL.Path (Request_URL pf (users_DeleteCollection_request pf c opts listOpts))
       = path_Join [pathPrefix (NewRequest pf c), ''users'']"
  using assms
  by (simp add: Request_URL_Path request_defs URL_p_kept URL_p_collection RESTClient_Verb_fields
      RESTClient_Verb_path_fields resource_names_valid strings_ToLower_names)

lemma users_named_paths:
  assumes "Request.err (NewRequest pf c) = None"
    and "IsValidPathSegmentName name = []" and "name \<noteq> []"
  shows "URL.Path (Request_URL pf (users_Get_request pf c name options))
       = path_Join [path_Join [pathPrefix (NewRequest pf c), ''users''], name, [], []]
   \<and> URL.Path (Request_URL pf (users_Delete_request pf c name opts))
       = path_Join [path_Join [pathPrefix (NewRequest pf c), ''users''], name, [], []]"
  using assms
  by (simp add: Request_URL_Path request_defs URL_p_kept URL_p_named RESTClient_Verb_fields
      RESTClient_Verb_path_fields resource_names_valid strings_ToLower_names)

lemma users_update_path:
  assumes "Request.err (NewRequest pf c) = None"
    and "IsValidPathSegmentName (ObjectMeta_Name obj) = []" and "ObjectMeta_Name obj \<noteq> []"
  shows "URL.Path (Request_URL pf (users_Update_request pf c obj opts))
       = path_Join [path_Join [pathPrefix (NewRequest pf c), ''users''], ObjectMeta_Name obj, [], []]"
  using assms
  by (simp add: Request_URL_Path request_defs URL_p_kept URL_p_named RESTClient_Verb_fields
      RESTClient_Verb_path_fields resource_names_valid strings_ToLower_names)

lemma secrets_collection_paths:
  assumes "Request.err (NewRequest pf c) = None"
  shows "URL.Path (Request_URL pf (secrets_List_request pf c listOpts))
       = path_Join [pathPrefix (NewRequest pf c), ''secrets'']
   \<and> URL.Path (Request_URL pf (secrets_Create_request pf c obj opts))
       = path_Join [pathPrefix (NewRequest pf c), ''secrets'']
   \<and> URL.Path (Request_URL pf (secrets_DeleteCollection_request pf c opts listOpts))
       = path_Join [pathPrefix (NewRequest pf c), ''secrets'']"
  using assms
  by (simp add: Request_URL_Path request_defs URL_p_kept URL_p_collection RESTClient_Verb_fields
      RESTClient_Verb_path_fields resource_names_valid strings_ToLower_names)

lemma secrets_named_paths:
  assumes "Request.err (NewRequest pf c) = None"
    and "IsValidPathSegmentName name = []" and "name \<noteq> []"
  shows "URL.Path (Request_URL pf (secrets_Get_request pf c name options))
       = path_Join [path_Join [pathPrefix (NewRequest pf c), ''secrets''], name, [], []]
   \<and> URL.Path (Request_URL pf (secrets_Delete_request pf c name opts))
       = path_Join [path_Join [pathPrefix (NewRequest pf c), ''secrets''], name, [], []]"
  using assms
  by (simp add: Request_URL_Path request_defs URL_p_kept URL_p_named RESTClient_Verb_fields
      RESTClient_Verb_path_fields resource_names_valid strings_ToLower_names)

lemma secrets_update_path:
  assumes "Request.err (NewRequest pf c) = None"
    and "IsValidPathSegmentName (ObjectMeta_Name obj) = []" and "ObjectMeta_Name obj \<noteq> []"
  shows "URL.Path (Request_URL pf (secrets_Update_request pf c obj opts))
       = path_Join [path_Join [pathPrefix (NewRequest pf c), ''secrets''], ObjectMeta_Name obj, [], []]"
  using assms
  by (simp add: Request_URL_Path request_defs URL_p_kept URL_p_named RESTClient_Verb_fields
      RESTClient_Verb_path_fields resource_names_valid strings_ToLower_names)

lemma policies_collection_paths:
  assumes "Request.err (NewRequest pf c) = None"
  shows "URL.Path (Request_URL pf (policies_List_request pf c listOpts))
       = path_Join [pathPrefix (NewRequest pf c), ''policies'']
   \<and> URL.Path (Request_URL pf (policies_Create_request pf c obj opts))
       = path_Join [pathPrefix (NewRequest pf c), ''policies'']
   \<and> URL.Path (Request_URL pf (policies_DeleteCollection_request pf c opts listOpts))
       = path_Join [pathPrefix (NewRequest pf c), ''policies'']"
  using assms
  by (simp add: Request_URL_Path request_defs URL_p_kept URL_p_collection RESTClient_Verb_fields
      RESTClient_Verb_path_fields resource_names_valid strings_ToLower_names)

lemma policies_named_paths:
  assumes "Request.err (NewRequest pf c) = None"
    and "IsValidPathSegmentName name = []" and "name \<noteq> []"
  shows "URL.Path (Request_URL pf (policies_Get_request pf c name options))
       = path_Join [path_Join [pathPrefix (NewRequest pf c), ''policies''], name, [], []]
   \<and> URL.Path (Request_URL pf (policies_Delete_request pf c name opts))
       = path_Join [path_Join [pathPrefix (NewRequest pf c), ''policies''], name, [], []]"
  using assms
  by (simp add: Request_URL_Path request_defs URL_p_kept URL_p_named RESTClient_Verb_fields
      RESTClient_Verb_path_fields resource_names_valid strings_ToLower_names)

lemma policies_update_path:
  assumes "Request.err (NewRequest pf c) = None"
    and "IsValidPathSegmentName (ObjectMeta_Name obj) = []" and "ObjectMeta_Name obj \<noteq> []"
  shows "URL.Path (Request_URL pf (policies_Update_request pf c obj opts))
       = path_Join [path_Join [pathPrefix (NewRequest pf c), ''policies''], ObjectMeta_Name obj, [], []]"
  using assms
  by (simp add: Request_URL_Path request_defs URL_p_kept URL_p_named RESTClient_Verb_fields
      RESTClient_Verb_path_fields resource_names_valid strings_ToLower_names)

lemma authz_path:
  assumes "Request.err (NewRequest pf c) = None"
  shows "URL.Path (Request_URL pf (authz_Authorize_request pf c request opts))
           = path_Join [pathPrefix (NewRequest pf c), ''authz'']"
  using assms
  by (simp add: Request_URL_Path request_defs URL_p_kept URL_p_collection RESTClient_Verb_fields
      RESTClient_Verb_path_fields resource_names_valid strings_ToLower_names)

lemma routingPlatform_EndBytes:
  "EndBytes routingPlatform agent method url bdy
     = (if method = ''GET'' \<and> URL.Path url = ''/v1/users/bob''
        then (\<lparr>StatusCode = 200\<rparr>, ''bob'', [])
        else if method = ''POST'' \<and> URL.Path url = ''/v1/authz''
        then (\<lparr>StatusCode = 200\<rparr>, ''allowed'', [])
        else (\<lparr>StatusCode = 404\<rparr>, ''not found'', []))"
  by (simp add: routingPlatform_def)

lemma basicClient_pathPrefix: "pathPrefix (NewRequest pf basicClient) = ''/v1''"
  by (simp add: NewRequest_def basicClient_def clientWith_def exampleURL_def SetHeader_def Let_def
      path_Join_def path_Clean_def cleanStep_def)

lemma basicClient_Negotiator:
  "ClientContentConfig.Negotiator (content basicClient)
     = Some (ClientNegotiator (Inr (Decoder ''json'')))"
  by (simp add: basicClient_def clientWith_def exampleContent_def)

lemma example_paths:
  "path_Join [path_Join [''/v1'', ''users''], ''bob'', [], []] = ''/v1/users/bob''"
  "path_Join [path_Join [''/v1'', ''users''], ''alice'', [], []] = ''/v1/users/alice''"
  "path_Join [''/v1'', ''authz''] = ''/v1/authz''"
  by (simp_all add: path_Join_def path_Clean_def cleanStep_def)

lemma example_answers:
  "answerInto decode (Some (ClientNegotiator (Inr d))) (\<lparr>StatusCode = 200\<rparr>, bdy, [])
     = Returns (decode d bdy)"
  "answerInto decode (Some (ClientNegotiator (Inr d))) (\<lparr>StatusCode = 404\<rparr>, bdy, [])
     = Returns (Inl (ErrorsNew bdy))"
  by (simp_all add: answerInto_def combineErr_def StatusOK_def)

text \<open>
  C3. The typed clients are the three of \<^verbatim>\<open>APIV1Interface\<close> (users, secrets, policies), each
  with \<^verbatim>\<open>Get\<close>, \<^verbatim>\<open>List\<close>, \<^verbatim>\<open>Create\<close>, \<^verbatim>\<open>Update\<close>, \<^verbatim>\<open>Delete\<close> and \<^verbatim>\<open>DeleteCollection\<close>,
  and the authorization client with \<^verbatim>\<open>Authorize\<close>. What each of these nineteen methods
  returns is what \<^verbatim>\<open>Into\<close> (for \<^verbatim>\<open>Delete\<close> and \<^verbatim>\<open>DeleteCollection\<close>: \<^verbatim>\<open>Error\<close>) makes of the
  answer to one HTTP exchange, and that exchange is made with the verb GET for \<^verbatim>\<open>Get\<close> and
  \<^verbatim>\<open>List\<close>, POST for \<^verbatim>\<open>Create\<close> and \<^verbatim>\<open>Authorize\<close>, PUT for \<^verbatim>\<open>Update\<close>, DELETE for
  \<^verbatim>\<open>Delete\<close> and \<^verbatim>\<open>DeleteCollection\<close>, at the URL of the request the method has built.
  \<^verbatim>\<open>Authorize\<close> decodes the body of the answer at the type of the authorization response. On
  a client for which the creation of a request records no error, the path of that URL is
  the path prefix joined with \<^verbatim>\<open>users\<close>, \<^verbatim>\<open>secrets\<close>, \<^verbatim>\<open>policies\<close> or \<^verbatim>\<open>authz\<close>, and
  joined further with the name for \<^verbatim>\<open>Get\<close>, \<^verbatim>\<open>Update\<close> and \<^verbatim>\<open>Delete\<close> of a valid name.
\<close>

theorem typed_operations:
  "users_Get pf decode c name options
       = answerInto decode (ClientContentConfig.Negotiator (content c))
           (EndBytes pf (sentAgent (users_Get_request pf c name options)) ''GET''
              (Request_URL pf (users_Get_request pf c name options))
              (Request.body (users_Get_request pf c name options)))
   \<and> users_List pf decode c listOpts
       = answerInto decode (ClientContentConfig.Negotiator (content c))
           (EndBytes pf (sentAgent (users_List_request pf c listOpts)) ''GET''
              (Request_URL pf (users_List_request pf c listOpts))
              (Request.body (users_List_request pf c listOpts)))
   \<and> users_Create pf decode c obj opts
       = answerInto decode (ClientContentConfig.Negotiator (content c))
           (EndBytes pf (sentAgent (users_Create_request pf c obj opts)) ''POST''
              (Request_URL pf (users_Create_request pf c obj opts))
              (Request.body (users_Create_request pf c obj opts)))
   \<and> users_Update pf decode c obj opts
       = answerInto decode (ClientContentConfig.Negotiator (content c))
           (EndBytes pf (sentAgent (users_Update_request pf c obj opts)) ''PUT''
              (Request_URL pf (users_Update_request pf c obj opts))
              (Request.body (users_Update_request pf c obj opts)))
   \<and> users_Delete pf c name opts
       = answerError (ClientContentConfig.Negotiator (content c))
           (EndBytes pf (sentAgent (users_Delete_request pf c name opts)) ''DELETE''
              (Request_URL pf (users_Delete_request pf c name opts))
              (Request.body (users_Delete_request pf c name opts)))
   \<and> users_DeleteCollection pf c opts listOpts
       = answerError (ClientContentConfig.Negotiator (content c))
           (EndBytes pf (sentAgent (users_DeleteCollection_request pf c opts listOpts)) ''DELETE''
              (Request_URL pf (users_DeleteCollection_request pf c opts listOpts))
              (Request.body (users_DeleteCollection_request pf c opts listOpts)))
   \<and> secrets_Get pf decode c name options
       = answerInto decode (ClientContentConfig.Negotiator (content c))
           (EndBytes pf (sentAgent (secrets_Get_request pf c name options)) ''GET''
              (Request_URL pf (secrets_Get_request pf c name options))
              (Request.body (secrets_Get_request pf c name options)))
   \<and> secrets_List pf decode c listOpts
       = answerInto decode (ClientContentConfig.Negotiator (content c))
           (EndBytes pf (sentAgent (secrets_List_request pf c listOpts)) ''GET''
              (Request_URL pf (secrets_List_request pf c listOpts))
              (Request.body (secrets_List_request pf c listOpts)))
   \<and> secrets_Create pf decode c obj opts
       = answerInto decode (ClientContentConfig.Negotiator (content c))
           (EndBytes pf (sentAgent (secrets_Create_request pf c obj opts)) ''POST''
              (Request_URL pf (secrets_Create_request pf c obj opts))
              (Request.body (secrets_Create_request pf c obj opts)))
   \<and> secrets_Update pf decode c obj opts
       = answerInto decode (ClientContentConfig.Negotiator (content c))
           (EndBytes pf (sentAgent (secrets_Update_request pf c obj opts)) ''PUT''
              (Request_URL pf (secrets_Update_request pf c obj opts))
              (Request.body (secrets_Update_request pf c obj opts)))
   \<and> secrets_Delete pf c name opts
       = answerError (ClientContentConfig.Negotiator (content c))
           (EndBytes pf (sentAgent (secrets_Delete_request pf c name opts)) ''DELETE''
              (Request_URL pf (secrets_Delete_request pf c name opts))
              (Request.body (secrets_Delete_request pf c name opts)))
   \<and> secrets_DeleteCollection pf c opts listOpts
       = answerError (ClientContentConfig.Negotiator (content c))
           (EndBytes pf (sentAgent (secrets_DeleteCollection_request pf c opts listOpts)) ''DELETE''
              (Request_URL pf (secrets_DeleteCollection_request pf c opts listOpts))
              (Request.body (secrets_DeleteCollection_request pf c opts listOpts)))
   \<and> policies_Get pf decode c name options
       = answerInto decode (ClientContentConfig.Negotiator (content c))
           (EndBytes pf (sentAgent (policies_Get_request pf c name options)) ''GET''
              (Request_URL pf (policies_Get_request pf c name options))
              (Request.body (policies_Get_request pf c name options)))
   \<and> policies_List pf decode c listOpts
       = answerInto decode (ClientContentConfig.Negotiator (content c))
           (EndBytes pf (sentAgent (policies_List_request pf c listOpts)) ''GET''
              (Request_URL pf (policies_List_request pf c listOpts))
              (Request.body (policies_List_request pf c listOpts)))
   \<and> policies_Create pf decode c obj opts
       = answerInto decode (ClientContentConfig.Negotiator (content c))
           (EndBytes pf (sentAgent (policies_Create_request pf c obj opts)) ''POST''
              (Request_URL pf (policies_Create_request pf c obj opts))
              (Request.body (policies_Create_request pf c obj opts)))
   \<and> policies_Update pf decode c obj opts
       = answerInto decode (ClientContentConfig.Negotiator (content c))
           (EndBytes pf (sentAgent (policies_Update_request pf c obj opts)) ''PUT''
              (Request_URL pf (policies_Update_request pf c obj opts))
              (Request.body (policies_Update_request pf c obj opts)))
   \<and> policies_Delete pf c name opts
       = answerError (ClientContentConfig.Negotiator (content c))
           (EndBytes pf (sentAgent (policies_Delete_request pf c name opts)) ''DELETE''
              (Request_URL pf (policies_Delete_request pf c name opts))
              (Request.body (policies_Delete_request pf c name opts)))
   \<and> policies_DeleteCollection pf c opts listOpts
       = answerError (ClientContentConfig.Negotiator (content c))
           (EndBytes pf (sentAgent (policies_DeleteCollection_request pf c opts listOpts)) ''DELETE''
              (Request_URL pf (policies_DeleteCollection_request pf c opts listOpts))
              (Request.body (policies_DeleteCollection_request pf c opts listOpts)))
   \<and> authz_Authorize pf decodeResponse c request opts
       = answerInto decodeResponse (ClientContentConfig.Negotiator (content c))
           (EndBytes pf (sentAgent (authz_Authorize_request pf c request opts)) ''POST''
              (Request_URL pf (authz_Authorize_request pf c request opts))
              (Request.body (authz_Authorize_request pf c request opts)))
   \<and> (Request.err (NewRequest pf c) = None \<longrightarrow>
        URL.Path (Request_URL pf (users_List_request pf c listOpts))
       = path_Join [pathPrefix (NewRequest pf c), ''users'']
        \<and> URL.Path (Request_URL pf (users_Create_request pf c obj opts))
       = path_Join [pathPrefix (NewRequest pf c), ''users'']
        \<and> URL.Path (Request_URL pf (users_DeleteCollection_request pf c opts listOpts))
       = path_Join [pathPrefix (NewRequest pf c), ''users'']
        \<and> URL.Path (Request_URL pf (secrets_List_request pf c listOpts))
       = path_Join [pathPrefix (NewRequest pf c), ''secrets'']
        \<and> URL.Path (Request_URL pf (secrets_Create_request pf c obj opts))
       = path_Join [pathPrefix (NewRequest pf c), ''secrets'']
        \<and> URL.Path (Request_URL pf (secrets_DeleteCollection_request pf c opts listOpts))
       = path_Join [pathPrefix (NewRequest pf c), ''secrets'']
        \<and> URL.Path (Request_URL pf (policies_List_request pf c listOpts))
       = path_Join [pathPrefix (NewRequest pf c), ''policies'']
        \<and> URL.Path (Request_URL pf (policies_Create_request pf c obj opts))
       = path_Join [pathPrefix (NewRequest pf c), ''policies'']
        \<and> URL.Path (Request_URL pf (policies_DeleteCollection_request pf c opts listOpts))
       = path_Join [pathPrefix (NewRequest pf c), ''policies'']
        \<and> URL.Path (Request_URL pf (authz_Authorize_request pf c request opts))
       = path_Join [pathPrefix (NewRequest pf c), ''authz''])
   \<and> (Request.err (NewRequest pf c) = None \<and> IsValidPathSegmentName name = [] \<and> name \<noteq> []
        \<longrightarrow>
        URL.Path (Request_URL pf (users_Get_request pf c name options))
       = path_Join [path_Join [pathPrefix (NewRequest pf c), ''users''], name, [], []]
        \<and> URL.Path (Request_URL pf (users_Delete_request pf c name opts))
       = path_Join [path_Join [pathPrefix (NewRequest pf c), ''users''], name, [], []]
        \<and> URL.Path (Request_URL pf (secrets_Get_request pf c name options))
       = path_Join [path_Join [pathPrefix (NewRequest pf c), ''secrets''], name, [], []]
        \<and> URL.Path (Request_URL pf (secrets_Delete_request pf c name opts))
       = path_Join [path_Join [pathPrefix (NewRequest pf c), ''secrets''], name, [], []]
        \<and> URL.Path (Request_URL pf (policies_Get_request pf c name options))
       = path_Join [path_Join [pathPrefix (NewRequest pf c), ''policies''], name, [], []]
        \<and> URL.Path (Request_URL pf (policies_Delete_request pf c name opts))
       = path_Join [path_Join [pathPrefix (NewRequest pf c), ''policies''], name, [], []])
   \<and> (Request.err (NewRequest pf c) = None \<and> IsValidPathSegmentName (ObjectMeta_Name obj) = []
        \<and> ObjectMeta_Name obj \<noteq> [] \<longrightarrow>
        URL.Path (Request_URL pf (users_Update_request pf c obj opts))
       = path_Join [path_Join [pathPrefix (NewRequest pf c), ''users''], ObjectMeta_Name obj, [], []]
        \<and> URL.Path (Request_URL pf (secrets_Update_request pf c obj opts))
       = path_Join [path_Join [pathPrefix (NewRequest pf c), ''secrets''], ObjectMeta_Name obj, [], []]
        \<and> URL.Path (Request_URL pf (policies_Update_request pf c obj opts))
       = path_Join [path_Join [pathPrefix (NewRequest pf c), ''policies''], ObjectMeta_Name obj, [], []])"
proof -
  show ?thesis
    by (intro conjI impI)
      (simp_all add: users_exchanges secrets_exchanges policies_exchanges authz_exchange
        users_collection_paths secrets_collection_paths policies_collection_paths
        users_named_paths secrets_named_paths policies_named_paths
        users_update_path secrets_update_path policies_update_path authz_path)
qed

theorem typed_operations_witness:
  "users_Get routingPlatform (\<lambda>d b. Inr b) basicClient ''bob'' ''{}'' = Returns (Inr ''bob'')
   \<and> users_Get routingPlatform (\<lambda>d b. Inr b) basicClient ''alice'' ''{}''
       = Returns (Inl (ErrorsNew ''not found''))
   \<and> authz_Authorize routingPlatform
         (\<lambda>d b. Inr \<lparr>Allowed = (b = ''allowed''), Denied = (b \<noteq> ''allowed'')\<rparr>)
         basicClient ''{}'' ''{}''
       = Returns (Inr \<lparr>Allowed = True, Denied = False\<rparr>)"
proof -
  have noerr: "Request.err (NewRequest routingPlatform basicClient) = None"
    using NewRequest_no_conflict [of basicClient routingPlatform] authMethod_basicClient
    by simp
  have bob: "IsValidPathSegmentName ''bob'' = []"
    using IsValidPathSegmentName_nonempty [of "''bob''"] by simp
  have alice: "IsValidPathSegmentName ''alice'' = []"
    using IsValidPathSegmentName_nonempty [of "''alice''"] by simp
  have a: "users_Get routingPlatform (\<lambda>d b. Inr b) basicClient ''bob'' ''{}'' = Returns (Inr ''bob'')"
    using typed_operations [where pf = routingPlatform and c = basicClient and name = "''bob''"
        and options = "''{}''" and decode = "\<lambda>d b. Inr b"] noerr bob
    by (simp add: routingPlatform_EndBytes basicClient_pathPrefix basicClient_Negotiator
        example_paths example_answers)
  have b: "users_Get routingPlatform (\<lambda>d b. Inr b) basicClient ''alice'' ''{}''
             = Returns (Inl (ErrorsNew ''not found''))"
    using typed_operations [where pf = routingPlatform and c = basicClient and name = "''alice''"
        and options = "''{}''" and decode = "\<lambda>d b. Inr b"] noerr alice
    by (simp add: routingPlatform_EndBytes basicClient_pathPrefix basicClient_Negotiator
        example_paths example_answers)
  have c: "authz_Authorize routingPlatform
             (\<lambda>d b. Inr \<lparr>Allowed = (b = ''allowed''), Denied = (b \<noteq> ''allowed'')\<rparr>)
             basicClient ''{}'' ''{}''
           = Returns (Inr \<lparr>Allowed = True, Denied = False\<rparr>)"
    using typed_operations [where pf = routingPlatform and c = basicClient
        and request = "''{}''" and opts = "''{}''" and name = "''bob''" and options = "''{}''"
        and listOpts = "\<lparr>TimeoutSeconds = None, listContent = []\<rparr>"
        and obj = "\<lparr>ObjectMeta_Name = ''bob'', objectContent = []\<rparr>"
        and decode = "\<lambda>d b. Inr b :: error + string"
        and decodeResponse = "\<lambda>d b. Inr \<lparr>Allowed = (b = ''allowed''), Denied = (b \<noteq> ''allowed'')\<rparr>"]
      noerr
    by (simp add: routingPlatform_EndBytes basicClient_pathPrefix basicClient_Negotiator
        example_paths example_answers)
  show ?thesis using a b c by simp
qed

section \<open>TLS configuration (C5)\<close>

lemma LoadTLSFiles_frame:
  "fst (LoadTLSFiles pf c)
     = c\<lparr>Config.TLSClientConfig := Config.TLSClientConfig (fst (LoadTLSFiles pf c))\<rparr>
   \<and> Insecure (Config.TLSClientConfig (fst (LoadTLSFiles pf c)))
       = Insecure (Config.TLSClientConfig c)
   \<and> TLSClientConfig.ServerName (Config.TLSClientConfig (fst (LoadTLSFiles pf c)))
       = TLSClientConfig.ServerName (Config.TLSClientConfig c)
   \<and> TLSClientConfig.NextProtos (Config.TLSClientConfig (fst (LoadTLSFiles pf c)))
       = TLSClientConfig.NextProtos (Config.TLSClientConfig c)"
proof -
  let ?t = "Config.TLSClientConfig c"
  obtain ca e1 where 1: "dataFromSliceOrFile pf (CAData ?t) (CAFile ?t) = (ca, e1)"
    by (cases "dataFromSliceOrFile pf (CAData ?t) (CAFile ?t)")
  obtain cert e2 where 2: "dataFromSliceOrFile pf (CertData ?t) (CertFile ?t) = (cert, e2)"
    by (cases "dataFromSliceOrFile pf (CertData ?t) (CertFile ?t)")
  obtain key e3 where 3: "dataFromSliceOrFile pf (KeyData ?t) (KeyFile ?t) = (key, e3)"
    by (cases "dataFromSliceOrFile pf (KeyData ?t) (KeyFile ?t)")
  show ?thesis
  proof (cases e1)
    case (Some a)
    then show ?thesis by (simp add: LoadTLSFiles_def Let_def 1)
  next
    case None
    note n1 = this
    show ?thesis
    proof (cases e2)
      case (Some a)
      then show ?thesis by (simp add: LoadTLSFiles_def Let_def 1 2 n1)
    next
      case None
      then show ?thesis
        by (cases e3) (simp_all add: LoadTLSFiles_def Let_def 1 2 3 n1)
    qed
  qed
qed


lemma TLSConfigFor_some:
  assumes "TLSConfigFor pf c = (c', Some tlsConfig, e)"
  shows "MinVersion tlsConfig = VersionTLS12
         \<and> InsecureSkipVerify tlsConfig = Insecure (Config.TLSClientConfig c)
         \<and> tls_Config.ServerName tlsConfig = TLSClientConfig.ServerName (Config.TLSClientConfig c)
         \<and> e = None"
proof -
  obtain c1 e1 where l: "LoadTLSFiles pf c = (c1, e1)"
    by (cases "LoadTLSFiles pf c")
  have fr: "Insecure (Config.TLSClientConfig c1) = Insecure (Config.TLSClientConfig c)"
    "TLSClientConfig.ServerName (Config.TLSClientConfig c1)
       = TLSClientConfig.ServerName (Config.TLSClientConfig c)"
    using LoadTLSFiles_frame [of pf c] l by simp_all
  show ?thesis
  proof (cases e1)
    case (Some a)
    then show ?thesis
      using assms l by (auto simp: TLSConfigFor_def Let_def split: if_splits)
  next
    case None
    show ?thesis
    proof (cases "X509KeyPair pf (CertData (Config.TLSClientConfig c1))
                    (KeyData (Config.TLSClientConfig c1))")
      case (Inl a)
      then show ?thesis
        using assms l None fr by (auto simp: TLSConfigFor_def Let_def split: if_splits)
    next
      case (Inr b)
      then show ?thesis
        using assms l None fr by (auto simp: TLSConfigFor_def Let_def split: if_splits)
    qed
  qed
qed


text \<open>
  C5. \<^verbatim>\<open>TLSConfigFor\<close> returns no TLS config and no error, and leaves the client config as it
  is, when the config has no CA, no client certificate authentication, is not insecure and
  has an empty server name. It returns no TLS config and an error when the config has a CA
  (data or file) and the insecure flag. Any TLS config it returns comes without an error and
  has the minimum version TLS 1.2, \<^verbatim>\<open>InsecureSkipVerify\<close> equal to the insecure flag of the
  client config, and the server name of the client config.
\<close>

theorem TLSConfigFor_spec:
  "(\<not> HasCA (Config.TLSClientConfig c) \<and> \<not> HasCertAuth (Config.TLSClientConfig c)
      \<and> \<not> Insecure (Config.TLSClientConfig c)
      \<and> TLSClientConfig.ServerName (Config.TLSClientConfig c) = [] \<longrightarrow>
      TLSConfigFor pf c = (c, None, None))
   \<and> (HasCA (Config.TLSClientConfig c) \<and> Insecure (Config.TLSClientConfig c) \<longrightarrow>
        TLSConfigFor pf c = (c, None, Some ErrRootCAWithInsecure))
   \<and> (TLSConfigFor pf c = (c', Some tlsConfig, e) \<longrightarrow>
        MinVersion tlsConfig = VersionTLS12
        \<and> InsecureSkipVerify tlsConfig = Insecure (Config.TLSClientConfig c)
        \<and> tls_Config.ServerName tlsConfig
            = TLSClientConfig.ServerName (Config.TLSClientConfig c)
        \<and> e = None)"
proof -
  have a: "\<not> HasCA (Config.TLSClientConfig c) \<and> \<not> HasCertAuth (Config.TLSClientConfig c)
      \<and> \<not> Insecure (Config.TLSClientConfig c)
      \<and> TLSClientConfig.ServerName (Config.TLSClientConfig c) = [] \<longrightarrow>
      TLSConfigFor pf c = (c, None, None)"
    by (simp add: TLSConfigFor_def)
  have b: "HasCA (Config.TLSClientConfig c) \<and> Insecure (Config.TLSClientConfig c) \<longrightarrow>
        TLSConfigFor pf c = (c, None, Some ErrRootCAWithInsecure)"
    by (simp add: TLSConfigFor_def)
  show ?thesis
    using a b TLSConfigFor_some [of pf c c' tlsConfig e] by blast
qed

lemma TLSConfigFor_serverNameConfig:
  "TLSConfigFor examplePlatform serverNameConfig
     = (serverNameConfig,
        Some \<lparr>MinVersion = 0x0303, InsecureSkipVerify = False,
              tls_Config.ServerName = ''iam.example.com'', tls_Config.NextProtos = [],
              RootCAs = None, GetClientCertificate = None\<rparr>,
        None)"
  by (simp add: TLSConfigFor_def LoadTLSFiles_def dataFromSliceOrFile_def serverNameConfig_def
      exampleConfig_def exampleTLS_def HasCA_def HasCertAuth_def VersionTLS12_def Let_def)

theorem TLSConfigFor_spec_witness:
  "TLSConfigFor examplePlatform exampleConfig = (exampleConfig, None, None)
   \<and> TLSConfigFor examplePlatform insecureCAConfig
       = (insecureCAConfig, None, Some ErrRootCAWithInsecure)
   \<and> TLSConfigFor examplePlatform serverNameConfig
       = (serverNameConfig,
          Some \<lparr>MinVersion = 0x0303, InsecureSkipVerify = False,
                tls_Config.ServerName = ''iam.example.com'', tls_Config.NextProtos = [],
                RootCAs = None, GetClientCertificate = None\<rparr>,
          None)"
proof -
  have a: "\<not> HasCA (Config.TLSClientConfig exampleConfig)
           \<and> \<not> HasCertAuth (Config.TLSClientConfig exampleConfig)
           \<and> \<not> Insecure (Config.TLSClientConfig exampleConfig)
           \<and> TLSClientConfig.ServerName (Config.TLSClientConfig exampleConfig) = []"
    by (simp add: exampleConfig_def exampleTLS_def HasCA_def HasCertAuth_def)
  have b: "HasCA (Config.TLSClientConfig insecureCAConfig)
           \<and> Insecure (Config.TLSClientConfig insecureCAConfig)"
    by (simp add: insecureCAConfig_def exampleConfig_def exampleTLS_def HasCA_def)
  show ?thesis
    using TLSConfigFor_spec [of exampleConfig examplePlatform]
      TLSConfigFor_spec [of insecureCAConfig examplePlatform]
      TLSConfigFor_spec [of serverNameConfig examplePlatform serverNameConfig
        "\<lparr>MinVersion = 0x0303, InsecureSkipVerify = False,
          tls_Config.ServerName = ''iam.example.com'', tls_Config.NextProtos = [],
          RootCAs = None, GetClientCertificate = None\<rparr>" None]
      TLSConfigFor_serverNameConfig a b
    by simp
qed

section \<open>The retry policy (C8)\<close>

lemma TLSConfigFor_keeps:
  "Config.MaxRetries (fst (TLSConfigFor pf c)) = Config.MaxRetries c
   \<and> Config.RetryInterval (fst (TLSConfigFor pf c)) = Config.RetryInterval c
   \<and> Config.Timeout (fst (TLSConfigFor pf c)) = Config.Timeout c"
proof -
  obtain c1 e1 where l: "LoadTLSFiles pf c = (c1, e1)"
    by (cases "LoadTLSFiles pf c")
  have "c1 = c\<lparr>Config.TLSClientConfig := Config.TLSClientConfig c1\<rparr>"
    using LoadTLSFiles_frame [of pf c] l by simp
  then have k: "Config.MaxRetries c1 = Config.MaxRetries c
      \<and> Config.RetryInterval c1 = Config.RetryInterval c
      \<and> Config.Timeout c1 = Config.Timeout c"
    by (metis Config.select_convs(12,13,14) Config.surjective Config.update_convs(10))
  have "fst (TLSConfigFor pf c) = c \<or> fst (TLSConfigFor pf c) = c1"
    using l by (auto simp: TLSConfigFor_def Let_def split: option.splits sum.splits)
  then show ?thesis using k by auto
qed

lemma RESTClientFor_agent:
  assumes "RESTClientFor pf config = Inr client"
  shows "Client client
           = (SuperAgent_Retry
                (SuperAgent_Timeout
                   (SuperAgent_TLSClientConfig gorequest_New (fst (snd (TLSConfigFor pf config))))
                   (Config.Timeout config))
                (Config.MaxRetries config) (Config.RetryInterval config)
                [StatusInternalServerError])\<lparr>DoNotClearSuperAgent := True\<rparr>"
proof -
  obtain c1 tc e1 where t: "TLSConfigFor pf config = (c1, tc, e1)"
    by (cases "TLSConfigFor pf config")
  have k: "Config.MaxRetries c1 = Config.MaxRetries config"
    "Config.RetryInterval c1 = Config.RetryInterval config"
    "Config.Timeout c1 = Config.Timeout config"
    using TLSConfigFor_keeps [of pf config] t by simp_all
  show ?thesis
    using assms t k
    by (auto simp: RESTClientFor_def NewRESTClient_def Let_def
        split: option.splits sum.splits prod.splits)
qed

lemma TLSConfigFor_exampleConfig:
  "TLSConfigFor examplePlatform exampleConfig = (exampleConfig, None, None)"
  by (simp add: TLSConfigFor_def exampleConfig_def exampleTLS_def HasCA_def HasCertAuth_def)

lemma defaultServerURLFor_exampleConfig:
  "defaultServerURLFor examplePlatform exampleConfig = Inr (exampleURL, ''/v1'')"
  by (simp add: defaultServerURLFor_def DefaultServerURL_def exampleConfig_def exampleTLS_def
      examplePlatform_def exampleURL_def Let_def path_Join_def path_Clean_def cleanStep_def)

lemma RESTClientFor_exampleConfig:
  "\<exists>client. RESTClientFor examplePlatform exampleConfig = Inr client"
proof -
  have gv: "ContentConfig.GroupVersion (Config.ContentConfig exampleConfig)
              = Some \<lparr>Group = ''iam.api'', Version = ''v1''\<rparr>"
    and neg: "ContentConfig.Negotiator (Config.ContentConfig exampleConfig)
                = Some (ClientNegotiator (Inr (Decoder ''json'')))"
    by (simp_all add: exampleConfig_def)
  show ?thesis
    by (simp add: RESTClientFor_def NewRESTClient_def Let_def gv neg
        TLSConfigFor_exampleConfig defaultServerURLFor_exampleConfig)
qed

text \<open>
  C8. For every config that \<^verbatim>\<open>RESTClientFor\<close> accepts, the agent of the client it returns
  holds one retry policy: enabled, \<^verbatim>\<open>MaxRetries\<close> of the config as the number of retries,
  \<^verbatim>\<open>RetryInterval\<close> of the config as the time between them, and the status 500 as the only
  status that is retried. The agent a request of that client hands to the HTTP exchange has
  the same policy; the SDK itself makes one exchange for each request.
\<close>

theorem RESTClientFor_retry:
  "RESTClientFor pf config = Inr client \<longrightarrow>
     Retryable (Client client)
       = \<lparr>RetryableStatus = [500], RetryerTime = Config.RetryInterval config,
          RetryerCount = Config.MaxRetries config, Attempt = 0, Enable = True\<rparr>
     \<and> Retryable (sentAgent (NewRequest pf client)) = Retryable (Client client)"
  using RESTClientFor_agent [of pf config client]
  by (simp add: SuperAgent_Retry_def SuperAgent_Timeout_def SuperAgent_TLSClientConfig_def
      StatusInternalServerError_def sentAgent_def NewRequest_restClient)


theorem RESTClientFor_retry_witness:
  "\<not> isl (RESTClientFor examplePlatform exampleConfig)
   \<and> Retryable (Client (projr (RESTClientFor examplePlatform exampleConfig)))
       = \<lparr>RetryableStatus = [500], RetryerTime = Second, RetryerCount = 3, Attempt = 0,
          Enable = True\<rparr>"
proof -
  obtain client where c: "RESTClientFor examplePlatform exampleConfig = Inr client"
    using RESTClientFor_exampleConfig by blast
  have f: "Config.RetryInterval exampleConfig = Second \<and> Config.MaxRetries exampleConfig = 3"
    by (simp add: exampleConfig_def)
  show ?thesis
    using RESTClientFor_retry [of examplePlatform exampleConfig client] c f by simp
qed

section \<open>The user agent (C7)\<close>

lemma splitN2_first:
  "(case splitN2 sep v of seg0 # _ \<Rightarrow> seg0 | [] \<Rightarrow> []) = takeWhile (\<lambda>ch. ch \<noteq> sep) v"
  by (induction v) (auto split: list.splits)

lemma adjustVersion_takeWhile:
  "adjustVersion v = (if v = [] then ''unknown'' else takeWhile (\<lambda>ch. ch \<noteq> CHR ''-'') v)"
  by (simp add: adjustVersion_def splitN2_first)

lemma filepath_Base_no_slash:
  "filepath_Base p = ''/'' \<or> CHR ''/'' \<notin> set (filepath_Base p)"
proof -
  have "CHR ''/'' \<notin> set (takeWhile (\<lambda>ch. ch \<noteq> CHR ''/'') xs)" for xs
    by (induction xs) auto
  then show ?thesis
    by (auto simp: filepath_Base_def Let_def)
qed

text \<open>
  C7. The user agent that \<^verbatim>\<open>DefaultUserAgent\<close> builds is the command, a slash, the version,
  a space, the operating system and the architecture between parentheses with a slash
  between them, a space, \<^verbatim>\<open>iam/\<close> and the commit. The command is the base name of the
  path of the program, or \<^verbatim>\<open>unknown\<close> when the path is empty; the version is the part of
  the git version before its first hyphen, or \<^verbatim>\<open>unknown\<close> when the git version is empty; the
  commit is the first seven characters of the git hash when it is longer than that, the
  hash itself when it is not, or \<^verbatim>\<open>unknown\<close> when the hash is empty. A base name is a
  single slash or has no slash in it.
\<close>

theorem DefaultUserAgent_form:
  "DefaultUserAgent pf
     = (if os_Args0 pf = [] then ''unknown'' else filepath_Base (os_Args0 pf))
       @ ''/''
       @ (if GitVersion pf = [] then ''unknown''
          else takeWhile (\<lambda>ch. ch \<noteq> CHR ''-'') (GitVersion pf))
       @ '' ('' @ GOOS pf @ ''/'' @ GOARCH pf @ '') iam/''
       @ (if GitCommit pf = [] then ''unknown''
          else if length (GitCommit pf) > 7 then take 7 (GitCommit pf)
          else GitCommit pf)
   \<and> (filepath_Base (os_Args0 pf) = ''/'' \<or> CHR ''/'' \<notin> set (filepath_Base (os_Args0 pf)))"
  using filepath_Base_no_slash [of "os_Args0 pf"]
  by (simp add: DefaultUserAgent_def buildUserAgent_def adjustCommand_def adjustCommit_def
      adjustVersion_takeWhile)

theorem DefaultUserAgent_form_witness:
  "DefaultUserAgent examplePlatform = ''iamctl/v1.6.2 (linux/amd64) iam/7f3c2a9''"
proof -
  have f: "os_Args0 examplePlatform = ''/usr/local/bin/iamctl''"
    "GitVersion examplePlatform = ''v1.6.2-3-g7f3c2a9''"
    "GitCommit examplePlatform = ''7f3c2a9d1e5b4c6a''"
    "GOOS examplePlatform = ''linux''" "GOARCH examplePlatform = ''amd64''"
    by (simp_all add: examplePlatform_def)
  have b: "filepath_Base ''/usr/local/bin/iamctl'' = ''iamctl''"
    by (simp add: filepath_Base_def)
  show ?thesis
    using DefaultUserAgent_form [of examplePlatform]
    by (simp add: f b)
qed

section \<open>Printing a config (C9)\<close>

lemma sanitizedConfig_secrets:
  "Config.Password (sanitizedConfig c)
     = (if Config.Password c = [] then [] else ''--- REDACTED ---'')
   \<and> Config.BearerToken (sanitizedConfig c)
       = (if Config.BearerToken c = [] then [] else ''--- REDACTED ---'')
   \<and> Config.SecretKey (sanitizedConfig c)
       = (if Config.SecretKey c = [] then [] else ''--- REDACTED ---'')"
  by (simp add: sanitizedConfig_def CopyConfig_def Let_def)

lemma sanitizedTLSClientConfig_secrets:
  "CertData (sanitizedTLSClientConfig t) = (if CertData t = [] then [] else ''--- TRUNCATED ---'')
   \<and> KeyData (sanitizedTLSClientConfig t) = (if KeyData t = [] then [] else ''--- REDACTED ---'')"
  by (simp add: sanitizedTLSClientConfig_def Let_def)

lemma sanitizedTLSClientConfig_same:
  assumes "(certData = [] \<longleftrightarrow> certData' = [])" and "(keyData = [] \<longleftrightarrow> keyData' = [])"
  shows "sanitizedTLSClientConfig (t\<lparr>CertData := certData, KeyData := keyData\<rparr>)
           = sanitizedTLSClientConfig (t\<lparr>CertData := certData', KeyData := keyData'\<rparr>)"
  using assms by (simp add: sanitizedTLSClientConfig_def Let_def)

lemma TLSClientConfig_String_same:
  assumes "(certData = [] \<longleftrightarrow> certData' = [])" and "(keyData = [] \<longleftrightarrow> keyData' = [])"
  shows "TLSClientConfig_String pf (t\<lparr>CertData := certData, KeyData := keyData\<rparr>)
           = TLSClientConfig_String pf (t\<lparr>CertData := certData', KeyData := keyData'\<rparr>)"
  using sanitizedTLSClientConfig_same [OF assms, of t]
  by (simp add: TLSClientConfig_String_def)

lemma sanitizedConfig_same:
  assumes "(password = [] \<longleftrightarrow> password' = [])" and "(token = [] \<longleftrightarrow> token' = [])"
    and "(secretKey = [] \<longleftrightarrow> secretKey' = [])"
  shows "sanitizedConfig (c\<lparr>Config.Password := password, Config.BearerToken := token,
                           Config.SecretKey := secretKey\<rparr>)
           = sanitizedConfig (c\<lparr>Config.Password := password', Config.BearerToken := token',
                               Config.SecretKey := secretKey'\<rparr>)"
  using assms by (simp add: sanitizedConfig_def CopyConfig_def Let_def)

lemma Config_String_same:
  assumes "(password = [] \<longleftrightarrow> password' = [])" and "(token = [] \<longleftrightarrow> token' = [])"
    and "(secretKey = [] \<longleftrightarrow> secretKey' = [])"
  shows "Config_String pf (Some (c\<lparr>Config.Password := password, Config.BearerToken := token,
                                   Config.SecretKey := secretKey\<rparr>))
           = Config_String pf (Some (c\<lparr>Config.Password := password',
                                       Config.BearerToken := token',
                                       Config.SecretKey := secretKey'\<rparr>))"
  using sanitizedConfig_same [OF assms, of c]
  by (simp add: Config_String_def)


lemma Config_String_TLS:
  assumes "TLSClientConfig_String pf t = TLSClientConfig_String pf t'"
  shows "Config_String pf (Some (c\<lparr>Config.TLSClientConfig := t\<rparr>))
           = Config_String pf (Some (c\<lparr>Config.TLSClientConfig := t'\<rparr>))"
proof -
  have copy: "\<lparr>Insecure = Insecure u, TLSClientConfig.ServerName = TLSClientConfig.ServerName u,
               CertFile = CertFile u, KeyFile = KeyFile u, CAFile = CAFile u,
               CertData = CertData u, KeyData = KeyData u, CAData = CAData u,
               TLSClientConfig.NextProtos = TLSClientConfig.NextProtos u\<rparr> = u" for u
    by (cases u) simp
  show ?thesis
    using assms
    by (simp add: Config_String_def sanitizedConfig_def CopyConfig_def Let_def
        TLSClientConfig_GoString_def copy)
qed

text \<open>
  C9. \<^verbatim>\<open>Config.String\<close> and \<^verbatim>\<open>Config.GoString\<close> print a copy of the config in which a
  \<^verbatim>\<open>Password\<close>, \<^verbatim>\<open>BearerToken\<close> or \<^verbatim>\<open>SecretKey\<close> that is not empty has been replaced
  by the marker \<^verbatim>\<open>--- REDACTED ---\<close>, and \<^verbatim>\<open>TLSClientConfig.String\<close> (which also prints the
  TLS part of a config) prints a copy in which \<^verbatim>\<open>CertData\<close> and \<^verbatim>\<open>KeyData\<close> that are not
  empty have been replaced by \<^verbatim>\<open>--- TRUNCATED ---\<close> and \<^verbatim>\<open>--- REDACTED ---\<close>. So what is
  printed does not depend on these values: two configs that differ only in them, each value
  empty in both or in neither, are printed as the same string, whatever \<^verbatim>\<open>fmt\<close> does with
  a field. This is the sense in which printing cannot leak a credential; that the characters
  of a value occur in the output by coincidence (a password that is a word of the marker, or
  equal to the host) is not excluded by it.
\<close>

theorem Config_String_redacts:
  "Config.Password (sanitizedConfig c)
     = (if Config.Password c = [] then [] else ''--- REDACTED ---'')
   \<and> Config.BearerToken (sanitizedConfig c)
       = (if Config.BearerToken c = [] then [] else ''--- REDACTED ---'')
   \<and> Config.SecretKey (sanitizedConfig c)
       = (if Config.SecretKey c = [] then [] else ''--- REDACTED ---'')
   \<and> CertData (sanitizedTLSClientConfig t)
       = (if CertData t = [] then [] else ''--- TRUNCATED ---'')
   \<and> KeyData (sanitizedTLSClientConfig t)
       = (if KeyData t = [] then [] else ''--- REDACTED ---'')
   \<and> ((password = [] \<longleftrightarrow> password' = []) \<and> (token = [] \<longleftrightarrow> token' = [])
        \<and> (secretKey = [] \<longleftrightarrow> secretKey' = []) \<and> (certData = [] \<longleftrightarrow> certData' = [])
        \<and> (keyData = [] \<longleftrightarrow> keyData' = []) \<longrightarrow>
        Config_String pf
          (Some (c\<lparr>Config.Password := password, Config.BearerToken := token,
                    Config.SecretKey := secretKey,
                    Config.TLSClientConfig := t\<lparr>CertData := certData, KeyData := keyData\<rparr>\<rparr>))
          = Config_String pf
              (Some (c\<lparr>Config.Password := password', Config.BearerToken := token',
                        Config.SecretKey := secretKey',
                        Config.TLSClientConfig :=
                          t\<lparr>CertData := certData', KeyData := keyData'\<rparr>\<rparr>))
        \<and> Config_GoString pf
            (Some (c\<lparr>Config.Password := password, Config.BearerToken := token,
                      Config.SecretKey := secretKey,
                      Config.TLSClientConfig := t\<lparr>CertData := certData, KeyData := keyData\<rparr>\<rparr>))
            = Config_GoString pf
                (Some (c\<lparr>Config.Password := password', Config.BearerToken := token',
                          Config.SecretKey := secretKey',
                          Config.TLSClientConfig :=
                            t\<lparr>CertData := certData', KeyData := keyData'\<rparr>\<rparr>))
        \<and> TLSClientConfig_String pf (t\<lparr>CertData := certData, KeyData := keyData\<rparr>)
            = TLSClientConfig_String pf (t\<lparr>CertData := certData', KeyData := keyData'\<rparr>)
        \<and> TLSClientConfig_GoString pf (t\<lparr>CertData := certData, KeyData := keyData\<rparr>)
            = TLSClientConfig_GoString pf (t\<lparr>CertData := certData', KeyData := keyData'\<rparr>))"
proof -
  have main: "Config_String pf
          (Some (c\<lparr>Config.Password := password, Config.BearerToken := token,
                    Config.SecretKey := secretKey,
                    Config.TLSClientConfig := t\<lparr>CertData := certData, KeyData := keyData\<rparr>\<rparr>))
          = Config_String pf
              (Some (c\<lparr>Config.Password := password', Config.BearerToken := token',
                        Config.SecretKey := secretKey',
                        Config.TLSClientConfig :=
                          t\<lparr>CertData := certData', KeyData := keyData'\<rparr>\<rparr>))"
    if h: "(password = [] \<longleftrightarrow> password' = [])" "(token = [] \<longleftrightarrow> token' = [])"
      "(secretKey = [] \<longleftrightarrow> secretKey' = [])" "(certData = [] \<longleftrightarrow> certData' = [])"
      "(keyData = [] \<longleftrightarrow> keyData' = [])"
  proof -
    let ?t = "t\<lparr>CertData := certData, KeyData := keyData\<rparr>"
    let ?t' = "t\<lparr>CertData := certData', KeyData := keyData'\<rparr>"
    have tls: "TLSClientConfig_String pf ?t = TLSClientConfig_String pf ?t'"
      using TLSClientConfig_String_same [OF h(4) h(5)] .
    have 1: "Config_String pf
          (Some ((c\<lparr>Config.Password := password, Config.BearerToken := token,
                     Config.SecretKey := secretKey\<rparr>)\<lparr>Config.TLSClientConfig := ?t\<rparr>))
        = Config_String pf
          (Some ((c\<lparr>Config.Password := password, Config.BearerToken := token,
                     Config.SecretKey := secretKey\<rparr>)\<lparr>Config.TLSClientConfig := ?t'\<rparr>))"
      using Config_String_TLS [OF tls] .
    have 2: "Config_String pf
          (Some ((c\<lparr>Config.TLSClientConfig := ?t'\<rparr>)\<lparr>Config.Password := password,
                   Config.BearerToken := token, Config.SecretKey := secretKey\<rparr>))
        = Config_String pf
          (Some ((c\<lparr>Config.TLSClientConfig := ?t'\<rparr>)\<lparr>Config.Password := password',
                   Config.BearerToken := token', Config.SecretKey := secretKey'\<rparr>))"
      using Config_String_same [OF h(1) h(2) h(3)] .
    have comm: "(c\<lparr>Config.TLSClientConfig := x\<rparr>)\<lparr>Config.Password := p,
                   Config.BearerToken := b, Config.SecretKey := k\<rparr>
                = c\<lparr>Config.Password := p, Config.BearerToken := b, Config.SecretKey := k,
                    Config.TLSClientConfig := x\<rparr>" for x p b k
      by (cases c) simp
    show ?thesis using 1 2 unfolding comm by simp
  qed
  show ?thesis
    apply (intro conjI impI)
    subgoal by (simp add: sanitizedConfig_secrets)
    subgoal by (simp add: sanitizedConfig_secrets)
    subgoal by (simp add: sanitizedConfig_secrets)
    subgoal by (simp add: sanitizedTLSClientConfig_secrets)
    subgoal by (simp add: sanitizedTLSClientConfig_secrets)
    subgoal by (elim conjE) (rule main; assumption)
    subgoal unfolding Config_GoString_def by (elim conjE) (rule main; assumption)
    subgoal by (elim conjE) (rule TLSClientConfig_String_same; assumption)
    subgoal unfolding TLSClientConfig_GoString_def
      by (elim conjE) (rule TLSClientConfig_String_same; assumption)
    done
qed

theorem Config_String_redacts_witness:
  "Config.Password (sanitizedConfig exampleConfig) = ''--- REDACTED ---''
   \<and> KeyData (sanitizedTLSClientConfig (exampleTLS\<lparr>KeyData := ''PRIVATE KEY''\<rparr>))
       = ''--- REDACTED ---''
   \<and> Config_String examplePlatform
         (Some (exampleConfig\<lparr>Config.Password := ''Admin@2021'', Config.BearerToken := [],
                  Config.SecretKey := ''s3cr3t'',
                  Config.TLSClientConfig := exampleTLS\<lparr>CertData := [], KeyData := ''PRIVATE KEY''\<rparr>\<rparr>))
       = Config_String examplePlatform
           (Some (exampleConfig\<lparr>Config.Password := ''hunter2'', Config.BearerToken := [],
                    Config.SecretKey := ''another'',
                    Config.TLSClientConfig := exampleTLS\<lparr>CertData := [], KeyData := ''OTHER KEY''\<rparr>\<rparr>))"
proof -
  have p: "Config.Password exampleConfig = ''Admin@2021''"
    by (simp add: exampleConfig_def)
  have k: "KeyData (exampleTLS\<lparr>KeyData := ''PRIVATE KEY''\<rparr>) = ''PRIVATE KEY''"
    by simp
  show ?thesis
    using Config_String_redacts [where c = exampleConfig and pf = examplePlatform
        and t = "exampleTLS\<lparr>KeyData := ''PRIVATE KEY''\<rparr>"
        and password = "''Admin@2021''" and password' = "''hunter2''"
        and token = "[]" and token' = "[]"
        and secretKey = "''s3cr3t''" and secretKey' = "''another''"
        and certData = "[]" and certData' = "[]"
        and keyData = "''PRIVATE KEY''" and keyData' = "''OTHER KEY''"] p k
    by simp
qed


section \<open>Loading a config file (C6)\<close>

text \<open>
  What holds of the claim: \<^verbatim>\<open>Load\<close> of no bytes is the default config with an empty server
  and empty identity information; \<^verbatim>\<open>Load\<close> of bytes that the YAML decoder refuses is that
  error; \<^verbatim>\<open>LoadFromFile\<close> returns the error of a failed read or a failed load; and when
  the loaded config has both its pointers, it returns that config with both
  \<^verbatim>\<open>LocationOfOrigin\<close> set to the file name. When one of the pointers is nil it panics.
\<close>

lemma Load_empty:
  "Load pf [] = Inr NewConfig \<and> AuthInfo NewConfig = Some emptyAuthInfo
   \<and> Server NewConfig = Some emptyServer"
  by (simp add: Load_def NewConfig_def)

lemma Load_unmarshal_error:
  "dat \<noteq> [] \<Longrightarrow> yaml_Unmarshal pf dat NewConfig = Inl e \<Longrightarrow> Load pf dat = Inl e"
  by (simp add: Load_def)

lemma LoadFromFile_read_error:
  "ReadFile pf filename = Inl e \<Longrightarrow> LoadFromFile pf filename = Returns (Inl e)"
  by (simp add: LoadFromFile_def)

lemma LoadFromFile_load_error:
  "ReadFile pf filename = Inr dat \<Longrightarrow> Load pf dat = Inl e \<Longrightarrow>
   LoadFromFile pf filename = Returns (Inl e)"
  by (simp add: LoadFromFile_def)

lemma LoadFromFile_loaded:
  "ReadFile pf filename = Inr dat \<Longrightarrow> Load pf dat = Inr config \<Longrightarrow>
   AuthInfo config = Some a \<Longrightarrow> Server config = Some sv \<Longrightarrow>
   LoadFromFile pf filename
     = Returns (Inr (config\<lparr>AuthInfo := Some (a\<lparr>AuthInfo.LocationOfOrigin := filename\<rparr>),
                            Server := Some (sv\<lparr>Server.LocationOfOrigin := filename\<rparr>)\<rparr>))"
  by (simp add: LoadFromFile_def Let_def)

lemma LoadFromFile_nil_pointer:
  "ReadFile pf filename = Inr dat \<Longrightarrow> Load pf dat = Inr config \<Longrightarrow>
   AuthInfo config = None \<or> Server config = None \<Longrightarrow>
   LoadFromFile pf filename = Panics"
  by (auto simp: LoadFromFile_def Let_def split: option.splits)

text \<open>
  C6, at an input where the code departs from it. The file \<^verbatim>\<open>iam.yaml\<close> holds
  \<^verbatim>\<open>user: null\<close>. It is read and loaded without an error, the loaded config has no
  \<^verbatim>\<open>AuthInfo\<close>, and \<^verbatim>\<open>LoadFromFile\<close> neither returns an error nor the loaded config: the
  assignment \<^verbatim>\<open>config.AuthInfo.LocationOfOrigin = filename\<close> stands before the comparison of
  \<^verbatim>\<open>config.AuthInfo\<close> with \<^verbatim>\<open>nil\<close>, and panics.
\<close>

theorem LoadFromFile_nil_user_panics:
  "ReadFile nullUserPlatform ''iam.yaml'' = Inr ''user: null''
   \<and> Load nullUserPlatform ''user: null'' = Inr (NewConfig\<lparr>AuthInfo := None\<rparr>)
   \<and> LoadFromFile nullUserPlatform ''iam.yaml'' = Panics"
proof -
  have r: "ReadFile nullUserPlatform ''iam.yaml'' = Inr ''user: null''"
    by (simp add: nullUserPlatform_def)
  have l: "Load nullUserPlatform ''user: null'' = Inr (NewConfig\<lparr>AuthInfo := None\<rparr>)"
    by (simp add: Load_def nullUserPlatform_def)
  show ?thesis
    using r l LoadFromFile_nil_pointer [OF r l] by simp
qed

end
